theory Spec2Isabelle
  imports Complex_Main
begin

section \<open>Numbers, vectors and the data the voxelizer reads\<close>

text \<open>
  The plugin is JavaScript; its numbers are IEEE doubles. They are modelled as the reals:
  every statement below is about the arithmetic the code writes down, not about rounding,
  NaN or the infinities. The coordinates of the concrete solids and boxes used below are
  small integers, and their samples are halves, which doubles represent exactly. Where a
  statement says which cells a scan with a positive step visits, it carries the hypothesis
  that the step and the bounds are numbers that doubles add without rounding, so that the
  loop variables of the code take the values they take here.
\<close>

text \<open>\<^verbatim>\<open>const EPSILON = 1e-5;\<close>\<close>

definition EPSILON :: real where
  "EPSILON = 1 / 100000"

text \<open>\<^verbatim>\<open>CSG.Vector\<close> with the three methods the scan calls: \<^verbatim>\<open>dot\<close>, \<^verbatim>\<open>plus\<close>, \<^verbatim>\<open>times\<close>
  (the last two are named \<open>Vector_plus\<close> and \<open>Vector_times\<close> here).\<close>

datatype Vector = Vector (vx: real) (vy: real) (vz: real)

definition dot :: "Vector \<Rightarrow> Vector \<Rightarrow> real" where
  "dot a b = vx a * vx b + vy a * vy b + vz a * vz b"

definition Vector_plus :: "Vector \<Rightarrow> Vector \<Rightarrow> Vector" where
  "Vector_plus a b = Vector (vx a + vx b) (vy a + vy b) (vz a + vz b)"

definition Vector_times :: "Vector \<Rightarrow> real \<Rightarrow> Vector" where
  "Vector_times a k = Vector (vx a * k) (vy a * k) (vz a * k)"

text \<open>A polygon of the library carries its vertices and its plane (\<^verbatim>\<open>polygon.plane\<close>,
  with \<^verbatim>\<open>plane.normal\<close> and \<^verbatim>\<open>plane.w\<close>).\<close>

datatype Plane = Plane (normal: Vector) (w: real)

record Polygon =
  vertices :: "Vector list"
  plane :: Plane

text \<open>A JavaScript array of three numbers (\<^verbatim>\<open>from\<close>, \<^verbatim>\<open>to\<close>, \<^verbatim>\<open>origin\<close>, \<^verbatim>\<open>rotation\<close>).\<close>

type_synonym triple = "real \<times> real \<times> real"

text \<open>The object \<^verbatim>\<open>{min: {x, y, z}, max: {x, y, z}}\<close> the scan takes its range from.\<close>

record Bounds =
  bmin :: Vector
  bmax :: Vector

text \<open>
  What \<^verbatim>\<open>csgToCubes\<close> uses of the solid it is given: \<^verbatim>\<open>toPolygons()\<close>, and
  \<^verbatim>\<open>getBounds\<close>, which the code tests for before calling it (\<open>None\<close>: the solid has no
  such method; \<open>Some b\<close>: it has, and returns \<open>b\<close>).
\<close>

record CSG =
  toPolygons :: "Polygon list"
  getBounds :: "Bounds option"

text \<open>The argument of \<^verbatim>\<open>new Cube({name: 'CSG Voxel', from: [x, y, z], to: [...], faces: {}})\<close>.\<close>

record Voxel =
  name :: string
  vfrom :: triple
  vto :: triple

section \<open>The voxelizer: \<^verbatim>\<open>csgToCubes\<close>\<close>

text \<open>\<^verbatim>\<open>const ray_direction = new CSG.Vector(1, 0, 0);\<close>\<close>

definition ray_direction :: Vector where
  "ray_direction = Vector 1 0 0"

text \<open>
  The callback of \<^verbatim>\<open>csg_polygons.forEach\<close>, as a function from the counter before the
  polygon to the counter after it:
  \<^verbatim>\<open>
  const denom = plane.normal.dot(ray_direction);
  if (Math.abs(denom) < EPSILON) return;
  const t = (plane.w - plane.normal.dot(center_point)) / denom;
  if (t > EPSILON) { ...; intersections++; }
  \<close>
\<close>

definition count_polygon :: "Vector \<Rightarrow> Polygon \<Rightarrow> nat \<Rightarrow> nat" where
  "count_polygon center_point polygon intersections =
     (let denom = dot (normal (plane polygon)) ray_direction in
      if \<bar>denom\<bar> < EPSILON then intersections
      else
        let t = (w (plane polygon) - dot (normal (plane polygon)) center_point) / denom in
        if t > EPSILON then intersections + 1 else intersections)"

definition intersections :: "Polygon list \<Rightarrow> Vector \<Rightarrow> nat" where
  "intersections csg_polygons center_point = fold (count_polygon center_point) csg_polygons 0"

text \<open>
  The body of the innermost loop: the sample point is the centre of the cell at
  \<open>(x, y, z)\<close>; a cube is pushed when the count is odd.
\<close>

definition cell :: "Polygon list \<Rightarrow> real \<Rightarrow> real \<Rightarrow> real \<Rightarrow> real \<Rightarrow> Voxel list" where
  "cell csg_polygons step x y z =
     (let center_point = Vector (x + step / 2) (y + step / 2) (z + step / 2) in
      if intersections csg_polygons center_point mod 2 \<noteq> 0
      then [\<lparr>name = ''CSG Voxel'', vfrom = (x, y, z), vto = (x + step, y + step, z + step)\<rparr>]
      else [])"

text \<open>
  The three nested \<^verbatim>\<open>for\<close> loops. Each is a recursion on its loop variable that threads
  the array \<^verbatim>\<open>cubes\<close>; a loop that does not come back has the value \<open>None\<close>.
\<close>

partial_function (option) loop_z ::
  "Polygon list \<Rightarrow> real \<Rightarrow> Bounds \<Rightarrow> real \<Rightarrow> real \<Rightarrow> real \<Rightarrow> Voxel list \<Rightarrow> Voxel list option" where
  "loop_z csg_polygons step bounds x y z cubes =
     (if z < vz (bmax bounds)
      then loop_z csg_polygons step bounds x y (z + step) (cubes @ cell csg_polygons step x y z)
      else Some cubes)"

partial_function (option) loop_y ::
  "Polygon list \<Rightarrow> real \<Rightarrow> Bounds \<Rightarrow> real \<Rightarrow> real \<Rightarrow> Voxel list \<Rightarrow> Voxel list option" where
  "loop_y csg_polygons step bounds x y cubes =
     (if y < vy (bmax bounds)
      then Option.bind (loop_z csg_polygons step bounds x y (vz (bmin bounds)) cubes)
             (\<lambda>cubes'. loop_y csg_polygons step bounds x (y + step) cubes')
      else Some cubes)"

partial_function (option) loop_x ::
  "Polygon list \<Rightarrow> real \<Rightarrow> Bounds \<Rightarrow> real \<Rightarrow> Voxel list \<Rightarrow> Voxel list option" where
  "loop_x csg_polygons step bounds x cubes =
     (if x < vx (bmax bounds)
      then Option.bind (loop_y csg_polygons step bounds x (vy (bmin bounds)) cubes)
             (\<lambda>cubes'. loop_x csg_polygons step bounds (x + step) cubes')
      else Some cubes)"

text \<open>The heuristic range \<^verbatim>\<open>{min: {x: 0, y: 0, z: 0}, max: {x: 16, y: 16, z: 16}}\<close>.\<close>

definition default_bounds :: Bounds where
  "default_bounds = \<lparr>bmin = Vector 0 0 0, bmax = Vector 16 16 16\<rparr>"

text \<open>
  \<^verbatim>\<open>function csgToCubes(csg_solid, resolution = 1)\<close> of the main file:
  \<^verbatim>\<open>
  const bounds = csg_solid.getBounds ? csg_solid.getBounds() : { min: ..., max: ... };
  for (let x = bounds.min.x; x < bounds.max.x; x += step) ...
  return cubes;
  \<close>
  The resolution is the number the caller passes (the default \<open>1\<close> stands for a missing
  argument, and the orchestrator always passes one).
\<close>

definition csgToCubes :: "CSG \<Rightarrow> real \<Rightarrow> Voxel list option" where
  "csgToCubes csg_solid resolution =
     (let csg_polygons = toPolygons csg_solid;
          step = resolution;
          bounds = (case getBounds csg_solid of Some b \<Rightarrow> b | None \<Rightarrow> default_bounds)
      in loop_x csg_polygons step bounds (vx (bmin bounds)) [])"

text \<open>
  The earlier draft of the same function (the second source file): it returns the empty
  array when the library is not loaded, and always scans the fixed range 0 to 16.
\<close>

definition csgToCubes_draft :: "bool \<Rightarrow> CSG \<Rightarrow> real \<Rightarrow> Voxel list option" where
  "csgToCubes_draft csg_defined csg_solid resolution =
     (if \<not> csg_defined then Some []
      else
        let csg_polygons = toPolygons csg_solid;
            step = resolution
        in loop_x csg_polygons step default_bounds 0 [])"

section \<open>The scan as a list of grid positions\<close>

text \<open>
  The values a loop variable takes in \<^verbatim>\<open>for (v = lo; v < hi; v += step)\<close> when the step
  is positive.
\<close>

function grid :: "real \<Rightarrow> real \<Rightarrow> real \<Rightarrow> real list" where
  "grid lo hi step = (if 0 < step \<and> lo < hi then lo # grid (lo + step) hi step else [])"
  by pat_completeness auto
termination
proof (relation "measure (\<lambda>(lo, hi, step). nat \<lceil>(hi - lo) / step\<rceil>)")
  show "wf (measure (\<lambda>(lo, hi, step). nat \<lceil>(hi - lo) / step\<rceil>))"
    by simp
next
  fix lo hi step :: real
  assume "0 < step \<and> lo < hi"
  then have s: "0 < step" and l: "lo < hi"
    by simp_all
  have "(hi - (lo + step)) / step = (hi - lo) / step - 1"
    using s by (simp add: field_simps)
  moreover have "0 < (hi - lo) / step"
    using s l by simp
  ultimately have "nat \<lceil>(hi - (lo + step)) / step\<rceil> < nat \<lceil>(hi - lo) / step\<rceil>"
    by simp
  then show "((lo + step, hi, step), (lo, hi, step)) \<in> measure (\<lambda>(lo, hi, step). nat \<lceil>(hi - lo) / step\<rceil>)"
    by simp
qed

declare grid.simps [simp del]

section \<open>The transform builder: \<^verbatim>\<open>Meshplus.getTransformationMatrix\<close>\<close>

text \<open>
  The function composes matrices with Three.js, which the host application provides and
  which is not in the repository. The
  operations of \<^verbatim>\<open>THREE.Matrix4\<close> it calls are written out as Three.js defines them:
  a matrix is its array \<^verbatim>\<open>elements\<close> of 16 numbers in column-major order, and
  \<^verbatim>\<open>set\<close> takes its arguments row by row.
\<close>

type_synonym Matrix4 = "real list"

definition Matrix4_set ::
  "real \<Rightarrow> real \<Rightarrow> real \<Rightarrow> real \<Rightarrow> real \<Rightarrow> real \<Rightarrow> real \<Rightarrow> real \<Rightarrow>
   real \<Rightarrow> real \<Rightarrow> real \<Rightarrow> real \<Rightarrow> real \<Rightarrow> real \<Rightarrow> real \<Rightarrow> real \<Rightarrow> Matrix4" where
  "Matrix4_set n11 n12 n13 n14 n21 n22 n23 n24 n31 n32 n33 n34 n41 n42 n43 n44 =
     [n11, n21, n31, n41, n12, n22, n32, n42, n13, n23, n33, n43, n14, n24, n34, n44]"

definition makeTranslation :: "real \<Rightarrow> real \<Rightarrow> real \<Rightarrow> Matrix4" where
  "makeTranslation x y z = Matrix4_set 1 0 0 x  0 1 0 y  0 0 1 z  0 0 0 1"

definition makeRotationX :: "real \<Rightarrow> Matrix4" where
  "makeRotationX theta =
     (let c = cos theta; s = sin theta in Matrix4_set 1 0 0 0  0 c (- s) 0  0 s c 0  0 0 0 1)"

definition makeRotationY :: "real \<Rightarrow> Matrix4" where
  "makeRotationY theta =
     (let c = cos theta; s = sin theta in Matrix4_set c 0 s 0  0 1 0 0  (- s) 0 c 0  0 0 0 1)"

definition makeRotationZ :: "real \<Rightarrow> Matrix4" where
  "makeRotationZ theta =
     (let c = cos theta; s = sin theta in Matrix4_set c (- s) 0 0  s c 0 0  0 0 1 0  0 0 0 1)"

definition multiplyMatrices :: "Matrix4 \<Rightarrow> Matrix4 \<Rightarrow> Matrix4" where
  "multiplyMatrices ae be =
     (let a11 = ae ! 0; a12 = ae ! 4; a13 = ae ! 8; a14 = ae ! 12;
          a21 = ae ! 1; a22 = ae ! 5; a23 = ae ! 9; a24 = ae ! 13;
          a31 = ae ! 2; a32 = ae ! 6; a33 = ae ! 10; a34 = ae ! 14;
          a41 = ae ! 3; a42 = ae ! 7; a43 = ae ! 11; a44 = ae ! 15;
          b11 = be ! 0; b12 = be ! 4; b13 = be ! 8; b14 = be ! 12;
          b21 = be ! 1; b22 = be ! 5; b23 = be ! 9; b24 = be ! 13;
          b31 = be ! 2; b32 = be ! 6; b33 = be ! 10; b34 = be ! 14;
          b41 = be ! 3; b42 = be ! 7; b43 = be ! 11; b44 = be ! 15
      in [a11 * b11 + a12 * b21 + a13 * b31 + a14 * b41,
          a21 * b11 + a22 * b21 + a23 * b31 + a24 * b41,
          a31 * b11 + a32 * b21 + a33 * b31 + a34 * b41,
          a41 * b11 + a42 * b21 + a43 * b31 + a44 * b41,
          a11 * b12 + a12 * b22 + a13 * b32 + a14 * b42,
          a21 * b12 + a22 * b22 + a23 * b32 + a24 * b42,
          a31 * b12 + a32 * b22 + a33 * b32 + a34 * b42,
          a41 * b12 + a42 * b22 + a43 * b32 + a44 * b42,
          a11 * b13 + a12 * b23 + a13 * b33 + a14 * b43,
          a21 * b13 + a22 * b23 + a23 * b33 + a24 * b43,
          a31 * b13 + a32 * b23 + a33 * b33 + a34 * b43,
          a41 * b13 + a42 * b23 + a43 * b33 + a44 * b43,
          a11 * b14 + a12 * b24 + a13 * b34 + a14 * b44,
          a21 * b14 + a22 * b24 + a23 * b34 + a24 * b44,
          a31 * b14 + a32 * b24 + a33 * b34 + a34 * b44,
          a41 * b14 + a42 * b24 + a43 * b34 + a44 * b44])"

text \<open>\<^verbatim>\<open>a.multiply(m)\<close> is \<^verbatim>\<open>a.multiplyMatrices(a, m)\<close>: it replaces \<^verbatim>\<open>a\<close> by the product and
  returns it.\<close>

definition multiply :: "Matrix4 \<Rightarrow> Matrix4 \<Rightarrow> Matrix4" where
  "multiply this m = multiplyMatrices this m"

definition degToRad :: "real \<Rightarrow> real" where
  "degToRad degrees = degrees * (pi / 180)"

text \<open>The three entries of an array of three numbers: \<^verbatim>\<open>a[0]\<close>, \<^verbatim>\<open>a[1]\<close>, \<^verbatim>\<open>a[2]\<close>.\<close>

definition at0 :: "triple \<Rightarrow> real" where
  "at0 a = fst a"

definition at1 :: "triple \<Rightarrow> real" where
  "at1 a = fst (snd a)"

definition at2 :: "triple \<Rightarrow> real" where
  "at2 a = snd (snd a)"

text \<open>The four fields the plugin reads of a Blockbench cube (\<^verbatim>\<open>from\<close> and \<^verbatim>\<open>to\<close> carry
  a prefix here).\<close>

record Cube =
  cube_from :: triple
  cube_to :: triple
  origin :: triple
  rotation :: triple

definition getTransformationMatrix :: "Cube \<Rightarrow> Matrix4" where
  "getTransformationMatrix cube =
     (let pivot = origin cube;
          rot = rotation cube;
          T1 = makeTranslation (- at0 pivot) (- at1 pivot) (- at2 pivot);
          Rx = makeRotationX (degToRad (at0 rot));
          Ry = makeRotationY (degToRad (at1 rot));
          Rz = makeRotationZ (degToRad (at2 rot));
          R = multiply (multiplyMatrices Rz Ry) Rx;
          T2 = makeTranslation (at0 pivot) (at1 pivot) (at2 pivot);
          M = multiply (multiply T2 R) T1
      in M)"

section \<open>The box-to-solid converter: \<^verbatim>\<open>Meshplus.cubeToCSG\<close>\<close>

text \<open>
  The solids are built by CSG.js, which the plugin loads from a CDN; the library is not
  part of the repository. The three operations \<^verbatim>\<open>cubeToCSG\<close> calls are parameters of the
  model: \<^verbatim>\<open>CSG.cube({center, radius})\<close>, \<^verbatim>\<open>solid.translate(v)\<close> and
  \<^verbatim>\<open>solid.transform(matrix)\<close>.
\<close>

record CSG_library =
  lib_cube :: "triple \<Rightarrow> triple \<Rightarrow> CSG"
  lib_translate :: "CSG \<Rightarrow> triple \<Rightarrow> CSG"
  lib_transform :: "CSG \<Rightarrow> Matrix4 \<Rightarrow> CSG"

text \<open>
  The ways the converter can throw: its own \<^verbatim>\<open>throw new Error(...)\<close> when Three.js is
  missing, the \<^verbatim>\<open>TypeError\<close> of reading \<^verbatim>\<open>cube.from\<close> when the element is
  \<^verbatim>\<open>undefined\<close>, and the \<^verbatim>\<open>ReferenceError\<close> of \<^verbatim>\<open>CSG.cube\<close> when CSG.js is not
  loaded.
\<close>

datatype error = ThreeRequired | TypeError | ReferenceError

text \<open>
  \<open>three_defined\<close> is \<^verbatim>\<open>typeof THREE !== 'undefined'\<close>, \<open>csg_defined\<close> says whether the
  global \<^verbatim>\<open>CSG\<close> exists, and the argument is \<open>None\<close> when the caller passes
  \<^verbatim>\<open>undefined\<close>.
  \<^verbatim>\<open>
  if (typeof THREE === 'undefined') { throw new Error(...); }
  const from = cube.from;
  const to = cube.to;
  const center = [ (from[0] + to[0]) / 2, (from[1] + to[1]) / 2, (from[2] + to[2]) / 2 ];
  const size = [ to[0] - from[0], to[1] - from[1], to[2] - from[2] ];
  let csg_solid = CSG.cube({ center: [0, 0, 0], radius: [size[0] / 2, size[1] / 2, size[2] / 2] });
  csg_solid = csg_solid.translate([center[0], center[1], center[2]]);
  if (cube.rotation.some(r => r !== 0)) {
      const matrix = Meshplus.getTransformationMatrix(cube);
      csg_solid = csg_solid.transform(matrix);
  }
  return csg_solid;
  \<close>
  There is no other test in the function. The three operations of a loaded library are
  taken to return.
\<close>

definition cubeToCSG :: "CSG_library \<Rightarrow> bool \<Rightarrow> bool \<Rightarrow> Cube option \<Rightarrow> error + CSG" where
  "cubeToCSG L three_defined csg_defined cube_arg =
     (if \<not> three_defined then Inl ThreeRequired
      else case cube_arg of
        None \<Rightarrow> Inl TypeError
      | Some cube \<Rightarrow>
          let from = cube_from cube;
              to = cube_to cube;
              center = ((at0 from + at0 to) / 2, (at1 from + at1 to) / 2, (at2 from + at2 to) / 2);
              size = (at0 to - at0 from, at1 to - at1 from, at2 to - at2 from)
          in if \<not> csg_defined then Inl ReferenceError
             else
               let csg_solid = lib_cube L (0, 0, 0) (at0 size / 2, at1 size / 2, at2 size / 2);
                   csg_solid = lib_translate L csg_solid (at0 center, at1 center, at2 center);
                   csg_solid =
                     (if list_ex (\<lambda>r. r \<noteq> 0)
                           [at0 (rotation cube), at1 (rotation cube), at2 (rotation cube)]
                      then lib_transform L csg_solid (getTransformationMatrix cube)
                      else csg_solid)
               in Inr csg_solid)"

section \<open>The same functions on the heap\<close>

text \<open>
  For what the functions write, the arrays and the cube objects of JavaScript are made
  explicit. An array of three numbers and a cube object live at an address; the fields
  \<^verbatim>\<open>from\<close>, \<^verbatim>\<open>to\<close>, \<^verbatim>\<open>origin\<close> and \<^verbatim>\<open>rotation\<close> of a cube object hold the addresses of
  their arrays. Addresses from \<open>next_free\<close> on are unused.
\<close>

type_synonym addr = nat

record cube_obj =
  from_ref :: addr
  to_ref :: addr
  origin_ref :: addr
  rotation_ref :: addr

record heap =
  arrays :: "addr \<rightharpoonup> triple"
  objects :: "addr \<rightharpoonup> cube_obj"
  next_free :: addr

text \<open>An array literal \<^verbatim>\<open>[a, b, c]\<close> is a new array at the next unused address.\<close>

definition alloc_array :: "triple \<Rightarrow> heap \<Rightarrow> addr \<times> heap" where
  "alloc_array v h =
     (next_free h, h\<lparr>arrays := (arrays h)(next_free h \<mapsto> v), next_free := Suc (next_free h)\<rparr>)"

text \<open>Reading \<^verbatim>\<open>cube.from\<close> and the like: the array in a field of the object at an address.\<close>

definition field :: "heap \<Rightarrow> addr \<Rightarrow> (cube_obj \<Rightarrow> addr) \<Rightarrow> triple option" where
  "field h cube sel = Option.bind (objects h cube) (\<lambda>obj. arrays h (sel obj))"

text \<open>
  Code outside the repository can write to what it is handed. The plugin hands arrays to
  three calls: \<^verbatim>\<open>CSG.cube\<close> gets the arrays \<^verbatim>\<open>center\<close> and \<^verbatim>\<open>radius\<close>, \<^verbatim>\<open>translate\<close> gets
  one array, and the constructor \<^verbatim>\<open>new Cube\<close> of the host gets the arrays \<^verbatim>\<open>from\<close> and
  \<^verbatim>\<open>to\<close> and returns the new object. What each of them does to the heap is a parameter, and
  so is what a boolean operation of the library (\<^verbatim>\<open>csg_solid_A.subtract(csg_solid_B)\<close>), which
  is handed two solids and no array of a cube, does to it. The other calls (\<^verbatim>\<open>transform\<close>,
  \<^verbatim>\<open>toPolygons\<close>, \<^verbatim>\<open>getBounds\<close>, the vector and matrix operations) are handed numbers and
  objects of the libraries only.
\<close>

record effects =
  eff_cube :: "addr \<Rightarrow> addr \<Rightarrow> heap \<Rightarrow> heap"
  eff_translate :: "addr \<Rightarrow> heap \<Rightarrow> heap"
  eff_new_Cube :: "addr \<Rightarrow> addr \<Rightarrow> heap \<Rightarrow> addr \<times> heap"
  eff_boolean :: "heap \<Rightarrow> heap"

text \<open>
  \<^verbatim>\<open>Meshplus.cubeToCSG\<close> with the heap: the cube is an address, every array literal is
  allocated, and what is read after a call into the library is read from the heap the call
  left. The solid returned is the one the library computes from the values handed to it.
\<close>

definition cubeToCSG_heap ::
  "CSG_library \<Rightarrow> effects \<Rightarrow> bool \<Rightarrow> bool \<Rightarrow> addr option \<Rightarrow> heap \<Rightarrow> (error + CSG) \<times> heap" where
  "cubeToCSG_heap L F three_defined csg_defined cube_arg h =
     (if \<not> three_defined then (Inl ThreeRequired, h)
      else case cube_arg of
        None \<Rightarrow> (Inl TypeError, h)
      | Some cube \<Rightarrow>
         (case field h cube from_ref of
            None \<Rightarrow> (Inl TypeError, h)
          | Some from \<Rightarrow>
             (case field h cube to_ref of
                None \<Rightarrow> (Inl TypeError, h)
              | Some to \<Rightarrow>
                  let (center, h) = alloc_array
                        ((at0 from + at0 to) / 2, (at1 from + at1 to) / 2, (at2 from + at2 to) / 2) h;
                      size = (at0 to - at0 from, at1 to - at1 from, at2 to - at2 from);
                      (size_ref, h) = alloc_array size h
                  in if \<not> csg_defined then (Inl ReferenceError, h)
                     else
                       let (zero, h) = alloc_array (0, 0, 0) h;
                           (radius, h) = alloc_array (at0 size / 2, at1 size / 2, at2 size / 2) h;
                           csg_solid = lib_cube L (0, 0, 0) (at0 size / 2, at1 size / 2, at2 size / 2);
                           h = eff_cube F zero radius h
                       in case arrays h center of
                            None \<Rightarrow> (Inl TypeError, h)
                          | Some c \<Rightarrow>
                              let (shift, h) = alloc_array (at0 c, at1 c, at2 c) h;
                                  csg_solid = lib_translate L csg_solid (at0 c, at1 c, at2 c);
                                  h = eff_translate F shift h
                              in case field h cube rotation_ref of
                                   None \<Rightarrow> (Inl TypeError, h)
                                 | Some rot \<Rightarrow>
                                     if list_ex (\<lambda>r. r \<noteq> 0) [at0 rot, at1 rot, at2 rot]
                                     then
                                       (case field h cube origin_ref of
                                          None \<Rightarrow> (Inl TypeError, h)
                                        | Some pivot \<Rightarrow>
                                            (Inr (lib_transform L csg_solid
                                               (getTransformationMatrix
                                                  \<lparr>cube_from = from, cube_to = to,
                                                   origin = pivot, rotation = rot\<rparr>)), h))
                                     else (Inr csg_solid, h))))"

text \<open>
  The body of the innermost loop with the heap:
  \<^verbatim>\<open>cubes.push(new Cube({name: 'CSG Voxel', from: [x, y, z], to: [...], faces: {}}))\<close>
  allocates the two arrays and calls the constructor. An entry of \<^verbatim>\<open>cubes\<close> is the address
  of the new cube with the options it was built from.
\<close>

type_synonym scan_state = "(addr \<times> Voxel) list \<times> heap"

definition cell_heap ::
  "effects \<Rightarrow> Polygon list \<Rightarrow> real \<Rightarrow> real \<Rightarrow> real \<Rightarrow> real \<Rightarrow> scan_state \<Rightarrow> scan_state" where
  "cell_heap F csg_polygons step x y z st =
     (let center_point = Vector (x + step / 2) (y + step / 2) (z + step / 2) in
      if intersections csg_polygons center_point mod 2 \<noteq> 0
      then
        let (from, h) = alloc_array (x, y, z) (snd st);
            (to, h) = alloc_array (x + step, y + step, z + step) h;
            (new_cube, h) = eff_new_Cube F from to h
        in (fst st @ [(new_cube,
              \<lparr>name = ''CSG Voxel'', vfrom = (x, y, z), vto = (x + step, y + step, z + step)\<rparr>)], h)
      else st)"

partial_function (option) loop_z_heap ::
  "effects \<Rightarrow> Polygon list \<Rightarrow> real \<Rightarrow> Bounds \<Rightarrow> real \<Rightarrow> real \<Rightarrow> real \<Rightarrow> scan_state \<Rightarrow> scan_state option" where
  "loop_z_heap F csg_polygons step bounds x y z st =
     (if z < vz (bmax bounds)
      then loop_z_heap F csg_polygons step bounds x y (z + step)
             (cell_heap F csg_polygons step x y z st)
      else Some st)"

partial_function (option) loop_y_heap ::
  "effects \<Rightarrow> Polygon list \<Rightarrow> real \<Rightarrow> Bounds \<Rightarrow> real \<Rightarrow> real \<Rightarrow> scan_state \<Rightarrow> scan_state option" where
  "loop_y_heap F csg_polygons step bounds x y st =
     (if y < vy (bmax bounds)
      then Option.bind (loop_z_heap F csg_polygons step bounds x y (vz (bmin bounds)) st)
             (\<lambda>st'. loop_y_heap F csg_polygons step bounds x (y + step) st')
      else Some st)"

partial_function (option) loop_x_heap ::
  "effects \<Rightarrow> Polygon list \<Rightarrow> real \<Rightarrow> Bounds \<Rightarrow> real \<Rightarrow> scan_state \<Rightarrow> scan_state option" where
  "loop_x_heap F csg_polygons step bounds x st =
     (if x < vx (bmax bounds)
      then Option.bind (loop_y_heap F csg_polygons step bounds x (vy (bmin bounds)) st)
             (\<lambda>st'. loop_x_heap F csg_polygons step bounds (x + step) st')
      else Some st)"

definition csgToCubes_heap :: "effects \<Rightarrow> CSG \<Rightarrow> real \<Rightarrow> heap \<Rightarrow> scan_state option" where
  "csgToCubes_heap F csg_solid resolution h =
     (let csg_polygons = toPolygons csg_solid;
          step = resolution;
          bounds = (case getBounds csg_solid of Some b \<Rightarrow> b | None \<Rightarrow> default_bounds)
      in loop_x_heap F csg_polygons step bounds (vx (bmin bounds)) ([], h))"

section \<open>A reference model of the library operations\<close>

text \<open>
  Modelled from the spec: the operations of CSG.js that the converter calls. The library
  is loaded from a CDN and is not in the repository; closed statements about the converter
  need a concrete one. As the specification describes the converter and its solids, and as
  CSG.js documents them, \<^verbatim>\<open>CSG.cube\<close> builds six quadrilaterals from the corners of the box,
  a polygon derives its plane (a unit normal and an offset) from its vertices, and
  \<^verbatim>\<open>translate\<close> and \<^verbatim>\<open>transform\<close> move every vertex and derive the planes again. The flag
  says whether solids have the method \<^verbatim>\<open>getBounds\<close>, which then returns the bounding box of
  the vertices. Where a face has no area the library divides by zero and stores NaN in the
  normal; here the quotient is \<open>0\<close>. No statement below depends on that value.
\<close>

text \<open>Modelled from the spec: the plane of a polygon, derived from its first three
  vertices.\<close>

definition Vector_minus :: "Vector \<Rightarrow> Vector \<Rightarrow> Vector" where
  "Vector_minus a b = Vector (vx a - vx b) (vy a - vy b) (vz a - vz b)"

definition cross :: "Vector \<Rightarrow> Vector \<Rightarrow> Vector" where
  "cross a b =
     Vector (vy a * vz b - vz a * vy b) (vz a * vx b - vx a * vz b) (vx a * vy b - vy a * vx b)"

definition unit :: "Vector \<Rightarrow> Vector" where
  "unit a = (let l = sqrt (dot a a) in Vector (vx a / l) (vy a / l) (vz a / l))"

definition Plane_fromPoints :: "Vector \<Rightarrow> Vector \<Rightarrow> Vector \<Rightarrow> Plane" where
  "Plane_fromPoints a b c =
     (let n = unit (cross (Vector_minus b a) (Vector_minus c a)) in Plane n (dot n a))"

definition Polygon_new :: "Vector list \<Rightarrow> Polygon" where
  "Polygon_new vs = \<lparr>vertices = vs, plane = Plane_fromPoints (vs ! 0) (vs ! 1) (vs ! 2)\<rparr>"

text \<open>Modelled from the spec: the six faces of the box with centre \<open>c\<close> and half-extents
  \<open>r\<close>, each a quadrilateral of four corners; corner \<open>i\<close> is on the positive side along x,
  y, z when bit 0, 1, 2 of \<open>i\<close> is set.\<close>

definition cube_polygons :: "triple \<Rightarrow> triple \<Rightarrow> Polygon list" where
  "cube_polygons c r =
     map (\<lambda>info. Polygon_new (map (\<lambda>i::nat.
            Vector (at0 c + at0 r * (if odd i then 1 else - 1))
                   (at1 c + at1 r * (if odd (i div 2) then 1 else - 1))
                   (at2 c + at2 r * (if odd (i div 4) then 1 else - 1))) info))
       [[0, 4, 6, 2], [1, 3, 7, 5], [0, 1, 5, 4], [2, 6, 7, 3], [0, 2, 3, 1], [4, 5, 7, 6]]"

text \<open>Modelled from the spec: the matrix, a column-major array, applied to a vertex (with the
  homogeneous division).\<close>

definition applyMatrix4 :: "Matrix4 \<Rightarrow> Vector \<Rightarrow> Vector" where
  "applyMatrix4 e v =
     (let d = e ! 3 * vx v + e ! 7 * vy v + e ! 11 * vz v + e ! 15 in
      Vector ((e ! 0 * vx v + e ! 4 * vy v + e ! 8 * vz v + e ! 12) / d)
             ((e ! 1 * vx v + e ! 5 * vy v + e ! 9 * vz v + e ! 13) / d)
             ((e ! 2 * vx v + e ! 6 * vy v + e ! 10 * vz v + e ! 14) / d))"

text \<open>Modelled from the spec: the bounding box of a solid, the minimum and the maximum of its
  vertices on each axis.\<close>

definition bounds_of :: "Polygon list \<Rightarrow> Bounds" where
  "bounds_of ps =
     (case concat (map vertices ps) of
        [] \<Rightarrow> \<lparr>bmin = Vector 0 0 0, bmax = Vector 0 0 0\<rparr>
      | v # vs \<Rightarrow>
          \<lparr>bmin = fold (\<lambda>a m. Vector (min (vx m) (vx a)) (min (vy m) (vy a)) (min (vz m) (vz a))) vs v,
           bmax = fold (\<lambda>a m. Vector (max (vx m) (vx a)) (max (vy m) (vy a)) (max (vz m) (vz a))) vs v\<rparr>)"

text \<open>Modelled from the spec: a solid is its polygons; the three operations of the library.\<close>

definition fromPolygons :: "bool \<Rightarrow> Polygon list \<Rightarrow> CSG" where
  "fromPolygons with_bounds ps =
     \<lparr>toPolygons = ps, getBounds = (if with_bounds then Some (bounds_of ps) else None)\<rparr>"

definition reference_library :: "bool \<Rightarrow> CSG_library" where
  "reference_library with_bounds =
     \<lparr>lib_cube = (\<lambda>c r. fromPolygons with_bounds (cube_polygons c r)),
      lib_translate = (\<lambda>s v. fromPolygons with_bounds
         (map (\<lambda>p. Polygon_new (map (\<lambda>a. Vector_plus a (Vector (at0 v) (at1 v) (at2 v))) (vertices p)))
            (toPolygons s))),
      lib_transform = (\<lambda>s m. fromPolygons with_bounds
         (map (\<lambda>p. Polygon_new (map (applyMatrix4 m) (vertices p))) (toPolygons s)))\<rparr>"

section \<open>Notions the statements are written in\<close>

text \<open>The voxels of a scan with a positive step, as a comprehension over the three grids.\<close>

definition scan :: "Polygon list \<Rightarrow> real \<Rightarrow> Bounds \<Rightarrow> Voxel list" where
  "scan ps step b =
     concat (map (\<lambda>x.
       concat (map (\<lambda>y.
         concat (map (\<lambda>z. cell ps step x y z) (grid (vz (bmin b)) (vz (bmax b)) step)))
       (grid (vy (bmin b)) (vy (bmax b)) step)))
     (grid (vx (bmin b)) (vx (bmax b)) step))"

text \<open>The range \<^verbatim>\<open>csgToCubes\<close> scans for a solid.\<close>

definition scan_bounds :: "CSG \<Rightarrow> Bounds" where
  "scan_bounds csg_solid = (case getBounds csg_solid of Some b \<Rightarrow> b | None \<Rightarrow> default_bounds)"

text \<open>
  The voxels at the positions \<open>min + i * step\<close> below \<open>max\<close> on each axis whose sample, the
  centre of the cell, has an odd count.
\<close>

definition on_grid :: "Polygon list \<Rightarrow> real \<Rightarrow> Bounds \<Rightarrow> Voxel \<Rightarrow> bool" where
  "on_grid ps step b v =
     (\<exists>i j k.
        vx (bmin b) + real i * step < vx (bmax b)
      \<and> vy (bmin b) + real j * step < vy (bmax b)
      \<and> vz (bmin b) + real k * step < vz (bmax b)
      \<and> odd (intersections ps
           (Vector (vx (bmin b) + real i * step + step / 2)
                   (vy (bmin b) + real j * step + step / 2)
                   (vz (bmin b) + real k * step + step / 2)))
      \<and> v = \<lparr>name = ''CSG Voxel'',
              vfrom = (vx (bmin b) + real i * step, vy (bmin b) + real j * step,
                       vz (bmin b) + real k * step),
              vto = (vx (bmin b) + real i * step + step, vy (bmin b) + real j * step + step,
                     vz (bmin b) + real k * step + step)\<rparr>)"

text \<open>
  Numbers that doubles add without rounding: the multiples of \<open>1/1024\<close> of magnitude at
  most \<open>2\<^sup>4\<^sup>0\<close>. When the step and the six bounds of a scan are such numbers, every
  value the loop variables take, every sample and every corner is a double, and the
  additions \<^verbatim>\<open>x += step\<close> of the code are those of the model.
\<close>

definition exact :: "real \<Rightarrow> bool" where
  "exact v = (v * 1024 = of_int \<lfloor>v * 1024\<rfloor> \<and> \<bar>v\<bar> \<le> 2 ^ 40)"

definition exact_scan :: "Bounds \<Rightarrow> real \<Rightarrow> bool" where
  "exact_scan b step =
     (exact step \<and> exact (vx (bmin b)) \<and> exact (vy (bmin b)) \<and> exact (vz (bmin b))
      \<and> exact (vx (bmax b)) \<and> exact (vy (bmax b)) \<and> exact (vz (bmax b)))"

text \<open>
  A call from heap \<open>h\<close> to heap \<open>h'\<close> touches only the addresses in \<open>A\<close>: every other array
  and object that existed is as it was, and nothing allocated is given up.
\<close>

definition touches_only :: "addr set \<Rightarrow> heap \<Rightarrow> heap \<Rightarrow> bool" where
  "touches_only A h h' =
     (list_all (\<lambda>a. a \<in> A \<or> (arrays h' a = arrays h a \<and> objects h' a = objects h a))
        [0..<next_free h]
      \<and> next_free h \<le> next_free h')"

text \<open>Code outside the repository writes only to the arrays it is handed and to what it
  allocates itself.\<close>

definition within_arguments :: "effects \<Rightarrow> bool" where
  "within_arguments F =
     ((\<forall>c r h. touches_only {c, r} h (eff_cube F c r h))
      \<and> (\<forall>v h. touches_only {v} h (eff_translate F v h))
      \<and> (\<forall>f t h. touches_only {f, t} h (snd (eff_new_Cube F f t h)))
      \<and> (\<forall>h. touches_only {} h (eff_boolean F h)))"

text \<open>The value of a cube object: its four arrays, when they are all there.\<close>

definition cube_value :: "heap \<Rightarrow> addr \<Rightarrow> Cube option" where
  "cube_value h cube =
     (case (field h cube from_ref, field h cube to_ref, field h cube origin_ref,
            field h cube rotation_ref) of
        (Some f, Some t, Some p, Some r) \<Rightarrow>
          Some \<lparr>cube_from = f, cube_to = t, origin = p, rotation = r\<rparr>
      | _ \<Rightarrow> None)"

text \<open>A cube object that exists in a heap, with its four fields pointing to addresses in use.\<close>

definition in_heap :: "heap \<Rightarrow> addr \<Rightarrow> bool" where
  "in_heap h cube =
     (cube < next_free h
      \<and> (case objects h cube of
            None \<Rightarrow> False
          | Some obj \<Rightarrow> from_ref obj < next_free h \<and> to_ref obj < next_free h
              \<and> origin_ref obj < next_free h \<and> rotation_ref obj < next_free h))"

text \<open>The lexicographic order on corner positions, x first, then y, then z.\<close>

definition lex_less :: "triple \<Rightarrow> triple \<Rightarrow> bool" where
  "lex_less a b =
     (at0 a < at0 b \<or> (at0 a = at0 b \<and> (at1 a < at1 b \<or> (at1 a = at1 b \<and> at2 a < at2 b))))"

text \<open>
  A face of a solid made of unrotated boxes lies in a plane perpendicular to an axis: its
  normal either has no x component or has only an x component.
\<close>

definition axis_aligned :: "Polygon \<Rightarrow> bool" where
  "axis_aligned p =
     (vx (normal (plane p)) = 0 \<or> (vy (normal (plane p)) = 0 \<and> vz (normal (plane p)) = 0))"

text \<open>
  The matrices of the specification, as lists of rows, with their product, and the
  column-major array of a matrix. Angles are in degrees.
\<close>

type_synonym mat = "real list list"

definition mat_mul :: "mat \<Rightarrow> mat \<Rightarrow> mat" where
  "mat_mul A B =
     map (\<lambda>i. map (\<lambda>j. \<Sum>k\<leftarrow>[0, 1, 2, 3]. A ! i ! k * B ! k ! j) [0, 1, 2, 3]) [0, 1, 2, 3]"

definition Translation :: "triple \<Rightarrow> mat" where
  "Translation p = [[1, 0, 0, at0 p], [0, 1, 0, at1 p], [0, 0, 1, at2 p], [0, 0, 0, 1]]"

definition RotX :: "real \<Rightarrow> mat" where
  "RotX deg = (let a = deg * pi / 180 in
     [[1, 0, 0, 0], [0, cos a, - sin a, 0], [0, sin a, cos a, 0], [0, 0, 0, 1]])"

definition RotY :: "real \<Rightarrow> mat" where
  "RotY deg = (let a = deg * pi / 180 in
     [[cos a, 0, sin a, 0], [0, 1, 0, 0], [- sin a, 0, cos a, 0], [0, 0, 0, 1]])"

definition RotZ :: "real \<Rightarrow> mat" where
  "RotZ deg = (let a = deg * pi / 180 in
     [[cos a, - sin a, 0, 0], [sin a, cos a, 0, 0], [0, 0, 1, 0], [0, 0, 0, 1]])"

definition column_major :: "mat \<Rightarrow> Matrix4" where
  "column_major M = concat (map (\<lambda>j. map (\<lambda>i. M ! i ! j) [0, 1, 2, 3]) [0, 1, 2, 3])"

definition identity_elements :: Matrix4 where
  "identity_elements = [1, 0, 0, 0,  0, 1, 0, 0,  0, 0, 1, 0,  0, 0, 0, 1]"

section \<open>Example inputs\<close>

text \<open>
  Axis-parallel rectangles with their planes: in the plane \<open>x = c\<close> (respectively \<open>y = c\<close>,
  \<open>z = c\<close>), with the normal along the positive axis when the flag is set and along the
  negative axis otherwise.
\<close>

definition rect_x :: "real \<Rightarrow> real \<Rightarrow> real \<Rightarrow> real \<Rightarrow> real \<Rightarrow> bool \<Rightarrow> Polygon" where
  "rect_x c y0 y1 z0 z1 positive =
     (if positive
      then \<lparr>vertices = [Vector c y0 z0, Vector c y1 z0, Vector c y1 z1, Vector c y0 z1],
            plane = Plane (Vector 1 0 0) c\<rparr>
      else \<lparr>vertices = [Vector c y0 z0, Vector c y0 z1, Vector c y1 z1, Vector c y1 z0],
            plane = Plane (Vector (- 1) 0 0) (- c)\<rparr>)"

definition rect_y :: "real \<Rightarrow> real \<Rightarrow> real \<Rightarrow> real \<Rightarrow> real \<Rightarrow> bool \<Rightarrow> Polygon" where
  "rect_y c x0 x1 z0 z1 positive =
     (if positive
      then \<lparr>vertices = [Vector x0 c z0, Vector x0 c z1, Vector x1 c z1, Vector x1 c z0],
            plane = Plane (Vector 0 1 0) c\<rparr>
      else \<lparr>vertices = [Vector x0 c z0, Vector x1 c z0, Vector x1 c z1, Vector x0 c z1],
            plane = Plane (Vector 0 (- 1) 0) (- c)\<rparr>)"

definition rect_z :: "real \<Rightarrow> real \<Rightarrow> real \<Rightarrow> real \<Rightarrow> real \<Rightarrow> bool \<Rightarrow> Polygon" where
  "rect_z c x0 x1 y0 y1 positive =
     (if positive
      then \<lparr>vertices = [Vector x0 y0 c, Vector x1 y0 c, Vector x1 y1 c, Vector x0 y1 c],
            plane = Plane (Vector 0 0 1) c\<rparr>
      else \<lparr>vertices = [Vector x0 y0 c, Vector x0 y1 c, Vector x1 y1 c, Vector x1 y0 c],
            plane = Plane (Vector 0 0 (- 1)) (- c)\<rparr>)"

text \<open>
  The boundary of the box from \<open>(0, 0, 0)\<close> to \<open>(2, 2, 2)\<close> without the unit cell from
  \<open>(1, 1, 1)\<close> to \<open>(2, 2, 2)\<close>: three full faces, three L-shaped faces cut into two
  rectangles each, and the three faces of the notch.
\<close>

definition notched_polygons :: "Polygon list" where
  "notched_polygons =
     [rect_x 0 0 2 0 2 False, rect_x 2 0 1 0 2 True, rect_x 2 1 2 0 1 True, rect_x 1 1 2 1 2 True,
      rect_y 0 0 2 0 2 False, rect_y 2 0 1 0 2 True, rect_y 2 1 2 0 1 True, rect_y 1 1 2 1 2 True,
      rect_z 0 0 2 0 2 False, rect_z 2 0 1 0 2 True, rect_z 2 1 2 0 1 True, rect_z 1 1 2 1 2 True]"

definition notched_cube :: CSG where
  "notched_cube =
     \<lparr>toPolygons = notched_polygons,
      getBounds = Some \<lparr>bmin = Vector 0 0 0, bmax = Vector 2 2 2\<rparr>\<rparr>"

text \<open>The box from \<open>(0, 100, 100)\<close> to \<open>(16, 116, 116)\<close>, as a solid without \<^verbatim>\<open>getBounds\<close>.\<close>

definition far_box :: CSG where
  "far_box =
     \<lparr>toPolygons =
        [rect_x 0 100 116 100 116 False, rect_x 16 100 116 100 116 True,
         rect_y 100 0 16 100 116 False, rect_y 116 0 16 100 116 True,
         rect_z 100 0 16 100 116 False, rect_z 116 0 16 100 116 True],
      getBounds = None\<rparr>"

text \<open>The unrotated box from \<open>(0, 0, 0)\<close> to \<open>(2, 2, 2)\<close>, with its pivot at \<open>(1, 1, 1)\<close>.\<close>

definition box_A :: Cube where
  "box_A = \<lparr>cube_from = (0, 0, 0), cube_to = (2, 2, 2), origin = (1, 1, 1), rotation = (0, 0, 0)\<rparr>"

text \<open>A box without extent along x.\<close>

definition flat_box :: Cube where
  "flat_box = \<lparr>cube_from = (0, 0, 0), cube_to = (0, 1, 1), origin = (0, 0, 0), rotation = (0, 0, 0)\<rparr>"

text \<open>
  A heap with box A as an object: its four arrays at the addresses 0 to 3 and the object
  at address 4.
\<close>

definition example_heap :: heap where
  "example_heap =
     \<lparr>arrays = [0 \<mapsto> (0, 0, 0), 1 \<mapsto> (2, 2, 2), 2 \<mapsto> (1, 1, 1), 3 \<mapsto> (0, 0, 0)],
      objects = [4 \<mapsto> \<lparr>from_ref = 0, to_ref = 1, origin_ref = 2, rotation_ref = 3\<rparr>],
      next_free = 5\<rparr>"

text \<open>
  Outside code that does write: a \<^verbatim>\<open>CSG.cube\<close> that overwrites the radius it is handed
  with its absolute values, a \<^verbatim>\<open>translate\<close> that writes nothing, a constructor that
  allocates the new object with two arrays of its own for the pivot and the rotation, and a
  boolean operation that allocates an array of its own.
\<close>

definition example_effects :: effects where
  "example_effects =
     \<lparr>eff_cube = (\<lambda>c r h. h\<lparr>arrays := (arrays h)(r :=
          map_option (\<lambda>v. (\<bar>at0 v\<bar>, \<bar>at1 v\<bar>, \<bar>at2 v\<bar>)) (arrays h r))\<rparr>),
      eff_translate = (\<lambda>v h. h),
      eff_new_Cube = (\<lambda>f t h.
         (next_free h,
          h\<lparr>arrays := (arrays h)(Suc (next_free h) \<mapsto> (0, 0, 0), Suc (Suc (next_free h)) \<mapsto> (0, 0, 0)),
            objects := (objects h)(next_free h \<mapsto>
              \<lparr>from_ref = f, to_ref = t, origin_ref = Suc (next_free h),
               rotation_ref = Suc (Suc (next_free h))\<rparr>),
            next_free := next_free h + 3\<rparr>)),
      eff_boolean = (\<lambda>h. h\<lparr>arrays := (arrays h)(next_free h \<mapsto> (0, 0, 0)),
                              next_free := Suc (next_free h)\<rparr>)\<rparr>"

section \<open>The example solids are well formed\<close>

text \<open>The rectangles carry the planes the library derives from their vertices.\<close>

lemma unit_axis: "0 < k \<Longrightarrow> unit (Vector k 0 0) = Vector 1 0 0 \<and> unit (Vector (- k) 0 0) = Vector (- 1) 0 0
  \<and> unit (Vector 0 k 0) = Vector 0 1 0 \<and> unit (Vector 0 (- k) 0) = Vector 0 (- 1) 0
  \<and> unit (Vector 0 0 k) = Vector 0 0 1 \<and> unit (Vector 0 0 (- k)) = Vector 0 0 (- 1)"
  by (simp add: unit_def dot_def Let_def real_sqrt_mult_self)

lemma rect_x_plane:
  assumes "y0 < y1" "z0 < z1"
  shows "Polygon_new (vertices (rect_x c y0 y1 z0 z1 positive)) = rect_x c y0 y1 z0 z1 positive"
proof -
  have k: "0 < (y1 - y0) * (z1 - z0)"
    using assms by simp
  show ?thesis
    using unit_axis [OF k]
    by (simp add: rect_x_def Polygon_new_def Plane_fromPoints_def cross_def Vector_minus_def dot_def
        Let_def algebra_simps)
qed

lemma rect_y_plane:
  assumes "x0 < x1" "z0 < z1"
  shows "Polygon_new (vertices (rect_y c x0 x1 z0 z1 positive)) = rect_y c x0 x1 z0 z1 positive"
proof -
  have k: "0 < (x1 - x0) * (z1 - z0)"
    using assms by simp
  show ?thesis
    using unit_axis [OF k]
    by (simp add: rect_y_def Polygon_new_def Plane_fromPoints_def cross_def Vector_minus_def dot_def
        Let_def algebra_simps)
qed

lemma rect_z_plane:
  assumes "x0 < x1" "y0 < y1"
  shows "Polygon_new (vertices (rect_z c x0 x1 y0 y1 positive)) = rect_z c x0 x1 y0 y1 positive"
proof -
  have k: "0 < (x1 - x0) * (y1 - y0)"
    using assms by simp
  show ?thesis
    using unit_axis [OF k]
    by (simp add: rect_z_def Polygon_new_def Plane_fromPoints_def cross_def Vector_minus_def dot_def
        Let_def algebra_simps)
qed

text \<open>
  In the notched cube and in the far box every plane is the one the library derives from
  the vertices, and the bounds of the notched cube are those of its vertices.
\<close>

lemma example_planes:
  "map (\<lambda>p. Polygon_new (vertices p)) notched_polygons = notched_polygons"
  "map (\<lambda>p. Polygon_new (vertices p)) (toPolygons far_box) = toPolygons far_box"
  by (simp_all add: notched_polygons_def far_box_def rect_x_plane rect_y_plane rect_z_plane)

lemma notched_bounds: "getBounds notched_cube = Some (bounds_of (toPolygons notched_cube))"
  by (simp add: notched_cube_def notched_polygons_def bounds_of_def rect_x_def rect_y_def rect_z_def)

section \<open>The scan: when it returns and what it returns\<close>

lemma admissible_None: "option.admissible (\<lambda>f. \<forall>x. Q x \<longrightarrow> f x = None)"
proof -
  have "(\<lambda>f::'a \<Rightarrow> 'b option. \<forall>x. Q x \<longrightarrow> f x = None) = (\<lambda>f. \<forall>x y. f x = Some y \<longrightarrow> \<not> Q x)"
    by (auto simp: fun_eq_iff)
  then show ?thesis
    using option_admissible [of "\<lambda>x y. \<not> Q x"] by simp
qed

lemma loop_x_None:
  "step \<le> 0 \<Longrightarrow> x < vx (bmax b) \<Longrightarrow> loop_x ps step b x cubes = None"
proof (induction arbitrary: ps step b x cubes rule: loop_x.fixp_induct)
  case 1
  have "option.admissible (\<lambda>f. \<forall>t. (\<lambda>((((ps, step), b), x), cubes). step \<le> 0 \<and> x < vx (bmax b)) t \<longrightarrow> f t = None)"
    by (rule admissible_None)
  then show ?case
    by (rule back_subst [of option.admissible]) (auto simp: fun_eq_iff)
next
  case 2
  show ?case by simp
next
  case (3 f)
  from 3(2,3) have "x + step < vx (bmax b)" by simp
  with 3 show ?case by (simp split: bind_split)
qed

lemma loop_z_grid:
  "0 < step \<Longrightarrow> loop_z ps step b x y z cubes =
     Some (cubes @ concat (map (cell ps step x y) (grid z (vz (bmax b)) step)))"
proof (induction z "vz (bmax b)" step arbitrary: cubes rule: grid.induct)
  case (1 lo step)
  show ?case
  proof (cases "lo < vz (bmax b)")
    case True
    then show ?thesis
      using 1 by (subst loop_z.simps, subst grid.simps) simp
  next
    case False
    then show ?thesis
      by (subst loop_z.simps, subst grid.simps) simp
  qed
qed

lemma loop_y_grid:
  "0 < step \<Longrightarrow> loop_y ps step b x y cubes =
     Some (cubes @ concat (map (\<lambda>y. concat (map (cell ps step x y) (grid (vz (bmin b)) (vz (bmax b)) step)))
        (grid y (vy (bmax b)) step)))"
proof (induction y "vy (bmax b)" step arbitrary: cubes rule: grid.induct)
  case (1 lo step)
  show ?case
  proof (cases "lo < vy (bmax b)")
    case True
    then show ?thesis
      using 1 by (subst loop_y.simps, subst grid.simps) (simp add: loop_z_grid)
  next
    case False
    then show ?thesis
      by (subst loop_y.simps, subst grid.simps) simp
  qed
qed

lemma loop_x_grid:
  "0 < step \<Longrightarrow> loop_x ps step b x cubes =
     Some (cubes @ concat (map (\<lambda>x. concat (map (\<lambda>y. concat (map (cell ps step x y) (grid (vz (bmin b)) (vz (bmax b)) step)))
        (grid (vy (bmin b)) (vy (bmax b)) step))) (grid x (vx (bmax b)) step)))"
proof (induction x "vx (bmax b)" step arbitrary: cubes rule: grid.induct)
  case (1 lo step)
  show ?case
  proof (cases "lo < vx (bmax b)")
    case True
    then show ?thesis
      using 1 by (subst loop_x.simps, subst grid.simps) (simp add: loop_y_grid)
  next
    case False
    then show ?thesis
      by (subst loop_x.simps, subst grid.simps) simp
  qed
qed

lemma csgToCubes_scan:
  "0 < step \<Longrightarrow> csgToCubes s step = Some (scan (toPolygons s) step (scan_bounds s))"
  by (simp add: csgToCubes_def scan_def scan_bounds_def loop_x_grid Let_def)

lemma csgToCubes_draft_scan:
  "0 < step \<Longrightarrow> csgToCubes_draft True s step = Some (scan (toPolygons s) step default_bounds)"
  using loop_x_grid [of step "toPolygons s" default_bounds 0 "[]"]
  by (simp add: csgToCubes_draft_def scan_def default_bounds_def Let_def)

lemma csgToCubes_nonpositive:
  "resolution \<le> 0 \<Longrightarrow> csgToCubes s resolution =
     (if vx (bmin (scan_bounds s)) < vx (bmax (scan_bounds s)) then None else Some [])"
  by (simp add: csgToCubes_def scan_bounds_def loop_x_None Let_def)
    (subst loop_x.simps, simp)

lemma csgToCubes_draft_nonpositive:
  "resolution \<le> 0 \<Longrightarrow>
   csgToCubes_draft csg_defined s resolution = (if csg_defined then None else Some [])"
  by (simp add: csgToCubes_draft_def default_bounds_def loop_x_None)

text \<open>
  Claim C10. When the range of the scan is not empty on any axis and the step is zero or
  negative, the loops never leave their range: \<^verbatim>\<open>csgToCubes\<close> does not return. The same
  holds for the draft, whose fixed range is never empty.
\<close>

theorem csgToCubes_nonpositive_step_diverges:
  assumes "resolution \<le> 0"
    and "vx (bmin (scan_bounds s)) < vx (bmax (scan_bounds s))"
    and "vy (bmin (scan_bounds s)) < vy (bmax (scan_bounds s))"
    and "vz (bmin (scan_bounds s)) < vz (bmax (scan_bounds s))"
  shows "csgToCubes s resolution = None \<and> csgToCubes_draft True s resolution = None"
  using assms
  by (simp add: csgToCubes_def csgToCubes_draft_def scan_bounds_def default_bounds_def
      loop_x_None Let_def)

theorem csgToCubes_nonpositive_step_diverges_witness:
  "(0::real) \<le> 0
   \<and> vx (bmin (scan_bounds notched_cube)) < vx (bmax (scan_bounds notched_cube))
   \<and> vy (bmin (scan_bounds notched_cube)) < vy (bmax (scan_bounds notched_cube))
   \<and> vz (bmin (scan_bounds notched_cube)) < vz (bmax (scan_bounds notched_cube))
   \<and> csgToCubes notched_cube 0 = None \<and> csgToCubes_draft True notched_cube 0 = None"
  using csgToCubes_nonpositive_step_diverges [of 0 notched_cube]
  by (simp add: scan_bounds_def notched_cube_def)

text \<open>
  Claim C4, as the code has it. \<^verbatim>\<open>csgToCubes\<close> does not look at the sign of the resolution
  and reports no error. With a resolution that is zero or negative it returns the empty
  array when the range is empty along x, and does not return otherwise; no voxel is
  produced either way. The draft, whose range is never empty, does not return unless the
  library is missing.
\<close>

theorem csgToCubes_no_resolution_check:
  "resolution \<le> 0 \<Longrightarrow>
   csgToCubes s resolution =
     (if vx (bmin (scan_bounds s)) < vx (bmax (scan_bounds s)) then None else Some [])
   \<and> csgToCubes_draft csg_defined s resolution = (if csg_defined then None else Some [])"
  by (simp add: csgToCubes_nonpositive csgToCubes_draft_nonpositive)

theorem csgToCubes_no_resolution_check_witness:
  "(0::real) \<le> 0 \<and> csgToCubes notched_cube 0 = None
   \<and> csgToCubes_draft True notched_cube 0 = None"
  using csgToCubes_no_resolution_check [of 0 notched_cube True]
  by (simp add: scan_bounds_def notched_cube_def)

text \<open>
  The claim as stated fails: with resolution \<open>0\<close> the call on the far box does not come
  back, so it does not fail on entry with an error.
\<close>

theorem csgToCubes_resolution_zero_counterexample:
  "csgToCubes far_box 0 = None"
  by (simp add: csgToCubes_def far_box_def default_bounds_def loop_x_None)

section \<open>The grid, the order of the output and the counting rule\<close>

lemma grid_lower: "v \<in> set (grid lo hi step) \<Longrightarrow> lo \<le> v"
proof (induction lo hi step rule: grid.induct)
  case (1 lo hi step)
  show ?case
  proof (cases "0 < step \<and> lo < hi")
    case True
    with 1 show ?thesis
      by (subst (asm) (2) grid.simps) auto
  next
    case False
    with 1(2) show ?thesis
      by (subst (asm) grid.simps) simp
  qed
qed

lemma grid_sorted: "sorted_wrt (<) (grid lo hi step)"
proof (induction lo hi step rule: grid.induct)
  case (1 lo hi step)
  show ?case
  proof (cases "0 < step \<and> lo < hi")
    case True
    then have "\<forall>v\<in>set (grid (lo + step) hi step). lo < v"
      using grid_lower [of _ "lo + step" hi step] by fastforce
    with True 1 show ?thesis
      by (subst grid.simps) simp
  next
    case False
    then show ?thesis
      by (subst grid.simps) auto
  qed
qed

lemma grid_set:
  "0 < step \<Longrightarrow> set (grid lo hi step) = {lo + real i * step | i. lo + real i * step < hi}"
proof (induction lo hi step rule: grid.induct)
  case (1 lo hi step)
  show ?case
  proof (cases "lo < hi")
    case True
    have "{lo + real i * step | i. lo + real i * step < hi}
        = insert lo {lo + step + real i * step | i. lo + step + real i * step < hi}" (is "?A = insert lo ?B")
    proof (intro set_eqI iffI)
      fix v assume "v \<in> ?A"
      then obtain i where i: "v = lo + real i * step" "lo + real i * step < hi" by blast
      show "v \<in> insert lo ?B"
      proof (cases i)
        case 0
        with i show ?thesis by simp
      next
        case (Suc j)
        with i have "v = lo + step + real j * step" "lo + step + real j * step < hi"
          by (simp_all add: algebra_simps)
        then show ?thesis by blast
      qed
    next
      fix v assume "v \<in> insert lo ?B"
      then consider "v = lo" | j where "v = lo + step + real j * step" "lo + step + real j * step < hi"
        by blast
      then show "v \<in> ?A"
      proof cases
        case 1
        with True have "v = lo + real 0 * step \<and> lo + real 0 * step < hi" by simp
        then show ?thesis by blast
      next
        case 2
        then have "v = lo + real (Suc j) * step \<and> lo + real (Suc j) * step < hi"
          by (simp add: algebra_simps)
        then show ?thesis by blast
      qed
    qed
    with True 1 show ?thesis
      by (subst grid.simps) simp
  next
    case False
    have "lo + real i * step \<ge> hi" for i
    proof -
      have "0 \<le> real i * step"
        using 1(2) by simp
      with False show ?thesis
        by simp
    qed
    then have "{lo + real i * step | i. lo + real i * step < hi} = {}"
      by (auto simp: not_less)
    with False show ?thesis
      by (subst grid.simps) simp
  qed
qed

lemma grid_length: "0 < step \<Longrightarrow> length (grid lo hi step) = nat \<lceil>(hi - lo) / step\<rceil>"
proof (induction lo hi step rule: grid.induct)
  case (1 lo hi step)
  show ?case
  proof (cases "lo < hi")
    case True
    have "(hi - (lo + step)) / step = (hi - lo) / step - 1"
      using 1(2) by (simp add: field_simps)
    moreover have "0 < (hi - lo) / step"
      using 1(2) True by simp
    ultimately have "Suc (nat \<lceil>(hi - (lo + step)) / step\<rceil>) = nat \<lceil>(hi - lo) / step\<rceil>"
      by simp linarith
    with True 1 show ?thesis
      by (subst grid.simps) simp
  next
    case False
    then have "(hi - lo) / step \<le> 0"
      using 1(2) by (simp add: field_simps)
    then have "nat \<lceil>(hi - lo) / step\<rceil> = 0"
      by (simp add: ceiling_le_zero)
    with False show ?thesis
      by (subst grid.simps) simp
  qed
qed

lemma cell_set:
  "v \<in> set (cell ps step x y z) \<longleftrightarrow>
     odd (intersections ps (Vector (x + step / 2) (y + step / 2) (z + step / 2)))
     \<and> v = \<lparr>name = ''CSG Voxel'', vfrom = (x, y, z), vto = (x + step, y + step, z + step)\<rparr>"
  by (auto simp: cell_def Let_def odd_iff_mod_2_eq_one)

lemma scan_set:
  assumes "0 < step"
  shows "v \<in> set (scan ps step b) \<longleftrightarrow>
     (\<exists>i j k.
        vx (bmin b) + real i * step < vx (bmax b)
      \<and> vy (bmin b) + real j * step < vy (bmax b)
      \<and> vz (bmin b) + real k * step < vz (bmax b)
      \<and> odd (intersections ps
           (Vector (vx (bmin b) + real i * step + step / 2)
                   (vy (bmin b) + real j * step + step / 2)
                   (vz (bmin b) + real k * step + step / 2)))
      \<and> v = \<lparr>name = ''CSG Voxel'',
              vfrom = (vx (bmin b) + real i * step, vy (bmin b) + real j * step, vz (bmin b) + real k * step),
              vto = (vx (bmin b) + real i * step + step, vy (bmin b) + real j * step + step,
                     vz (bmin b) + real k * step + step)\<rparr>)"
  unfolding scan_def set_concat set_map
  by (simp add: grid_set [OF assms] cell_set) blast


lemma sorted_wrt_concat_map:
  assumes "sorted_wrt S xs"
    and "\<And>x. x \<in> set xs \<Longrightarrow> sorted_wrt R (f x)"
    and "\<And>x y a b. S x y \<Longrightarrow> a \<in> set (f x) \<Longrightarrow> b \<in> set (f y) \<Longrightarrow> R a b"
  shows "sorted_wrt R (concat (map f xs))"
  using assms(1,2)
proof (induction xs)
  case Nil
  show ?case by simp
next
  case (Cons x xs)
  have "R a b" if "a \<in> set (f x)" "b \<in> set (concat (map f xs))" for a b
  proof -
    from that(2) obtain y where "y \<in> set xs" "b \<in> set (f y)" by auto
    moreover from Cons.prems(1) \<open>y \<in> set xs\<close> have "S x y" by simp
    ultimately show ?thesis using assms(3) that(1) by blast
  qed
  with Cons show ?case
    by (simp add: sorted_wrt_append)
qed

lemma row_sorted:
  "sorted_wrt (\<lambda>a b. lex_less (vfrom a) (vfrom b))
     (concat (map (cell ps step x y) (grid lo hi step)))"
proof (rule sorted_wrt_concat_map [where S = "(<)"])
  show "sorted_wrt (<) (grid lo hi step)" by (rule grid_sorted)
next
  fix z show "sorted_wrt (\<lambda>a b. lex_less (vfrom a) (vfrom b)) (cell ps step x y z)"
    by (simp add: cell_def Let_def)
next
  fix z z' :: real and a b
  assume "z < z'" "a \<in> set (cell ps step x y z)" "b \<in> set (cell ps step x y z')"
  then show "lex_less (vfrom a) (vfrom b)"
    by (simp add: cell_set lex_less_def at0_def at1_def at2_def)
qed

lemma row_vfrom:
  "v \<in> set (concat (map (cell ps step x y) zs)) \<Longrightarrow> at0 (vfrom v) = x \<and> at1 (vfrom v) = y"
  by (auto simp: cell_set at0_def at1_def)

lemma slab_sorted:
  "sorted_wrt (\<lambda>a b. lex_less (vfrom a) (vfrom b))
     (concat (map (\<lambda>y. concat (map (cell ps step x y) (grid lo hi step))) (grid lo' hi' step)))"
proof (rule sorted_wrt_concat_map [where S = "(<)"])
  show "sorted_wrt (<) (grid lo' hi' step)" by (rule grid_sorted)
next
  fix y show "sorted_wrt (\<lambda>a b. lex_less (vfrom a) (vfrom b))
     (concat (map (cell ps step x y) (grid lo hi step)))"
    by (rule row_sorted)
next
  fix y y' :: real and a b
  assume "y < y'" "a \<in> set (concat (map (cell ps step x y) (grid lo hi step)))"
    "b \<in> set (concat (map (cell ps step x y') (grid lo hi step)))"
  then show "lex_less (vfrom a) (vfrom b)"
    using row_vfrom [of a ps step x y] row_vfrom [of b ps step x y']
    by (simp add: lex_less_def)
qed

lemma slab_vfrom:
  "v \<in> set (concat (map (\<lambda>y. concat (map (cell ps step x y) zs)) ys)) \<Longrightarrow> at0 (vfrom v) = x"
  by (auto simp: cell_set at0_def)

lemma scan_sorted: "sorted_wrt (\<lambda>a b. lex_less (vfrom a) (vfrom b)) (scan ps step b)"
  unfolding scan_def
proof (rule sorted_wrt_concat_map [where S = "(<)"])
  show "sorted_wrt (<) (grid (vx (bmin b)) (vx (bmax b)) step)" by (rule grid_sorted)
next
  fix x show "sorted_wrt (\<lambda>a b. lex_less (vfrom a) (vfrom b))
     (concat (map (\<lambda>y. concat (map (cell ps step x y) (grid (vz (bmin b)) (vz (bmax b)) step)))
        (grid (vy (bmin b)) (vy (bmax b)) step)))"
    by (rule slab_sorted)
next
  fix x x' :: real and a c
  assume "x < x'"
    "a \<in> set (concat (map (\<lambda>y. concat (map (cell ps step x y) (grid (vz (bmin b)) (vz (bmax b)) step)))
        (grid (vy (bmin b)) (vy (bmax b)) step)))"
    "c \<in> set (concat (map (\<lambda>y. concat (map (cell ps step x' y) (grid (vz (bmin b)) (vz (bmax b)) step)))
        (grid (vy (bmin b)) (vy (bmax b)) step)))"
  then show "lex_less (vfrom a) (vfrom c)"
    using slab_vfrom [of a ps step x] slab_vfrom [of c ps step x']
    by (simp add: lex_less_def)
qed

lemma scan_on_grid:
  "0 < step \<Longrightarrow> v \<in> set (scan ps step b) \<longleftrightarrow> on_grid ps step b v"
  unfolding on_grid_def by (rule scan_set)

text \<open>
  Claim C7, as the code has it. The range of the scan is what \<^verbatim>\<open>getBounds\<close> of the solid
  returns when the solid has that method, and the fixed range from 0 to 16 on every axis
  when it has not; the draft always scans the fixed range. Bounds are never computed from
  the vertices. For a positive step, when the step and the bounds are numbers that doubles
  add without rounding, the voxels returned are those at the positions \<open>min + i * step\<close>
  below \<open>max\<close> on each axis whose sample, the centre of the cell, has an odd count.
\<close>

theorem csgToCubes_exact_grid_from_getBounds_or_default:
  assumes "0 < step"
    and "getBounds s = Some b
         \<or> (getBounds s = None \<and> b = \<lparr>bmin = Vector 0 0 0, bmax = Vector 16 16 16\<rparr>)"
    and "exact_scan b step"
  shows "(\<exists>vs. csgToCubes s step = Some vs
            \<and> (\<forall>v. v \<in> set vs \<longleftrightarrow> on_grid (toPolygons s) step b v))
       \<and> (\<exists>vs. csgToCubes_draft True s step = Some vs
            \<and> (\<forall>v. v \<in> set vs \<longleftrightarrow>
                  on_grid (toPolygons s) step \<lparr>bmin = Vector 0 0 0, bmax = Vector 16 16 16\<rparr> v))"
proof -
  from assms(2) have "scan_bounds s = b"
    by (auto simp: scan_bounds_def default_bounds_def)
  with assms(1) have "csgToCubes s step = Some (scan (toPolygons s) step b)"
    by (simp add: csgToCubes_scan)
  moreover from assms(1)
  have "csgToCubes_draft True s step
      = Some (scan (toPolygons s) step \<lparr>bmin = Vector 0 0 0, bmax = Vector 16 16 16\<rparr>)"
    by (simp add: csgToCubes_draft_scan default_bounds_def)
  ultimately show ?thesis
    using assms(1) by (simp add: scan_on_grid)
qed

theorem csgToCubes_exact_grid_from_getBounds_or_default_witness:
  "(0::real) < 16
   \<and> (getBounds far_box = Some default_bounds
        \<or> (getBounds far_box = None \<and> default_bounds = \<lparr>bmin = Vector 0 0 0, bmax = Vector 16 16 16\<rparr>))
   \<and> exact_scan default_bounds 16
   \<and> (\<exists>vs. csgToCubes far_box 16 = Some vs
            \<and> (\<forall>v. v \<in> set vs \<longleftrightarrow> on_grid (toPolygons far_box) 16 default_bounds v))
   \<and> (\<exists>vs. csgToCubes_draft True far_box 16 = Some vs
            \<and> (\<forall>v. v \<in> set vs \<longleftrightarrow>
                  on_grid (toPolygons far_box) 16 \<lparr>bmin = Vector 0 0 0, bmax = Vector 16 16 16\<rparr> v))"
proof -
  have h1: "(0::real) < 16"
    by simp
  have h2: "getBounds far_box = Some default_bounds
      \<or> (getBounds far_box = None \<and> default_bounds = \<lparr>bmin = Vector 0 0 0, bmax = Vector 16 16 16\<rparr>)"
    by (simp add: far_box_def default_bounds_def)
  have h3: "exact_scan default_bounds 16"
    by (simp add: exact_scan_def exact_def default_bounds_def)
  show ?thesis
    using h1 h2 h3 csgToCubes_exact_grid_from_getBounds_or_default [OF h1 h2 h3] by blast
qed

text \<open>
  The claim as stated fails: the far box, a solid without \<^verbatim>\<open>getBounds\<close> whose vertices span
  \<open>(0, 100, 100)\<close> to \<open>(16, 116, 116)\<close>, is scanned at step 16 in the fixed range: the
  one voxel returned is the cell from \<open>(0, 0, 0)\<close> to \<open>(16, 16, 16)\<close>, outside the bounding
  box of the vertices.
\<close>

theorem csgToCubes_far_box_counterexample:
  "csgToCubes far_box 16
     = Some [\<lparr>name = ''CSG Voxel'', vfrom = (0, 0, 0), vto = (16, 16, 16)\<rparr>]
   \<and> bounds_of (toPolygons far_box)
     = \<lparr>bmin = Vector 0 100 100, bmax = Vector 16 116 116\<rparr>"
  by (simp add: csgToCubes_scan scan_def scan_bounds_def default_bounds_def far_box_def grid.simps
      cell_def intersections_def count_polygon_def dot_def ray_direction_def EPSILON_def
      rect_x_def rect_y_def rect_z_def bounds_of_def)

lemma intersections_filter:
  "fold (count_polygon c) ps n =
     n + length (filter (\<lambda>p. EPSILON \<le> \<bar>dot (normal (plane p)) ray_direction\<bar>
          \<and> EPSILON < (w (plane p) - dot (normal (plane p)) c) / dot (normal (plane p)) ray_direction) ps)"
  by (induction ps arbitrary: n) (simp_all add: count_polygon_def Let_def not_less)

lemma intersections_axis_aligned:
  assumes "\<forall>p\<in>set ps. axis_aligned p"
  shows "intersections ps (Vector x y z) = intersections ps (Vector x y' z')"
proof -
  have "(EPSILON \<le> \<bar>dot (normal (plane p)) ray_direction\<bar>
          \<and> EPSILON < (w (plane p) - dot (normal (plane p)) (Vector x y z)) / dot (normal (plane p)) ray_direction)
      = (EPSILON \<le> \<bar>dot (normal (plane p)) ray_direction\<bar>
          \<and> EPSILON < (w (plane p) - dot (normal (plane p)) (Vector x y' z')) / dot (normal (plane p)) ray_direction)"
    if "p \<in> set ps" for p
  proof -
    from assms that have "axis_aligned p" by blast
    then show ?thesis
      by (auto simp: axis_aligned_def dot_def ray_direction_def EPSILON_def)
  qed
  then show ?thesis
    unfolding intersections_def intersections_filter
    by (simp cong: filter_cong)
qed

lemma cell_axis_aligned:
  assumes "\<forall>p\<in>set ps. axis_aligned p"
  shows "length (cell ps step x y z) = length (cell ps step x 0 0)"
  using intersections_axis_aligned [OF assms, of "x + step / 2" "y + step / 2" "z + step / 2" "0 + step / 2" "0 + step / 2"]
  by (simp add: cell_def Let_def)

lemma length_concat_const:
  "(\<And>x. x \<in> set xs \<Longrightarrow> length (f x) = n) \<Longrightarrow> length (concat (map f xs)) = length xs * n"
  by (induction xs) simp_all

lemma scan_axis_aligned_length:
  assumes "\<forall>p\<in>set ps. axis_aligned p"
  shows "length (scan ps step b) =
     length (grid (vy (bmin b)) (vy (bmax b)) step) * length (grid (vz (bmin b)) (vz (bmax b)) step)
     * length (filter (\<lambda>x. cell ps step x 0 0 \<noteq> []) (grid (vx (bmin b)) (vx (bmax b)) step))"
proof -
  let ?gy = "grid (vy (bmin b)) (vy (bmax b)) step" and ?gz = "grid (vz (bmin b)) (vz (bmax b)) step"
  have row: "length (concat (map (cell ps step x y) ?gz)) = length ?gz * length (cell ps step x 0 0)" for x y
    by (rule length_concat_const) (rule cell_axis_aligned [OF assms])
  have slab: "length (concat (map (\<lambda>y. concat (map (cell ps step x y) ?gz)) ?gy))
      = length ?gy * (length ?gz * length (cell ps step x 0 0))" for x
    by (rule length_concat_const) (rule row)
  have c: "length (cell ps step x 0 0) = (if cell ps step x 0 0 \<noteq> [] then 1 else 0)" for x
    by (simp add: cell_def Let_def)
  have "length (concat (map (\<lambda>x. concat (map (\<lambda>y. concat (map (cell ps step x y) ?gz)) ?gy)) xs))
      = length ?gy * length ?gz * length (filter (\<lambda>x. cell ps step x 0 0 \<noteq> []) xs)" for xs
    by (induction xs) (simp_all add: slab c algebra_simps)
  then show ?thesis
    by (simp add: scan_def)
qed


text \<open>
  The voxelizer on the notched cube at step 1: every cell of the slab \<open>0 \<le> x < 1\<close> and no
  cell of the slab \<open>1 \<le> x < 2\<close>, four voxels where the solid has seven cells.
\<close>

lemma csgToCubes_notched_cube:
   "csgToCubes notched_cube 1 =
  Some [\<lparr>name = ''CSG Voxel'', vfrom = (0, 0, 0), vto = (1, 1, 1)\<rparr>,
        \<lparr>name = ''CSG Voxel'', vfrom = (0, 0, 1), vto = (1, 1, 2)\<rparr>,
        \<lparr>name = ''CSG Voxel'', vfrom = (0, 1, 0), vto = (1, 2, 1)\<rparr>,
        \<lparr>name = ''CSG Voxel'', vfrom = (0, 1, 1), vto = (1, 2, 2)\<rparr>]"
  by (simp add: csgToCubes_scan scan_def scan_bounds_def notched_cube_def notched_polygons_def grid.simps
      cell_def intersections_def count_polygon_def dot_def ray_direction_def EPSILON_def
      rect_x_def rect_y_def rect_z_def)

text \<open>
  Claim C2, evaluated on the code. The solid that box A minus box B gives has faces in
  axis-parallel planes only, and its bounding box is that of A. For every such solid the
  voxelizer at step 1 returns a number of voxels that is 0, 4 or 8 when the solid reports
  its bounds, and a multiple of 256 when it does not and the default range is scanned: a
  crossing is counted wherever the plane is crossed, so the classification of a sample does
  not depend on its y and z. The result never has 7 voxels.
\<close>

theorem csgToCubes_axis_aligned_never_seven:
  assumes "\<forall>p\<in>set (toPolygons s). axis_aligned p"
    and "getBounds s = Some \<lparr>bmin = Vector 0 0 0, bmax = Vector 2 2 2\<rparr> \<or> getBounds s = None"
  shows "\<exists>vs. csgToCubes s 1 = Some vs \<and> length vs \<noteq> 7
     \<and> (if getBounds s = None then 256 dvd length vs else length vs \<in> {0, 4, 8})"
proof -
  let ?k = "\<lambda>b. length (filter (\<lambda>x. cell (toPolygons s) 1 x 0 0 \<noteq> []) (grid (vx (bmin b)) (vx (bmax b)) 1))"
  have len: "length (scan (toPolygons s) 1 b) =
      length (grid (vy (bmin b)) (vy (bmax b)) 1) * length (grid (vz (bmin b)) (vz (bmax b)) 1) * ?k b" for b
    by (rule scan_axis_aligned_length [OF assms(1)])
  from assms(2) show ?thesis
  proof
    assume g: "getBounds s = Some \<lparr>bmin = Vector 0 0 0, bmax = Vector 2 2 2\<rparr>"
    let ?b = "\<lparr>bmin = Vector 0 0 0, bmax = Vector 2 2 2\<rparr>"
    define k where "k = ?k ?b"
    have "k \<le> length (grid 0 2 1)"
      unfolding k_def using length_filter_le [of _ "grid 0 2 1"] by simp
    then have "k \<le> 2"
      by (simp add: grid_length)
    then have "k = 0 \<or> k = 1 \<or> k = 2"
      by arith
    moreover have "length (scan (toPolygons s) 1 ?b) = 4 * k"
      unfolding k_def by (simp add: len grid_length)
    ultimately have "length (scan (toPolygons s) 1 ?b) \<in> {0, 4, 8}"
      by auto
    with g show ?thesis
      by (auto simp: csgToCubes_scan scan_bounds_def)
  next
    assume g: "getBounds s = None"
    define k where "k = ?k default_bounds"
    have "length (scan (toPolygons s) 1 default_bounds) = 256 * k"
      unfolding k_def by (simp add: len grid_length default_bounds_def)
    then have "256 dvd length (scan (toPolygons s) 1 default_bounds)"
      and "length (scan (toPolygons s) 1 default_bounds) \<noteq> 7"
      by simp_all arith
    then have "256 dvd length (scan (toPolygons s) 1 default_bounds)
        \<and> length (scan (toPolygons s) 1 default_bounds) \<noteq> 7"
      by simp
    then show ?thesis
      using g by (simp add: csgToCubes_scan scan_bounds_def)
  qed
qed

theorem csgToCubes_axis_aligned_never_seven_witness:
  "list_all axis_aligned (toPolygons notched_cube)
   \<and> (getBounds notched_cube = Some \<lparr>bmin = Vector 0 0 0, bmax = Vector 2 2 2\<rparr>
        \<or> getBounds notched_cube = None)
   \<and> (\<exists>vs. csgToCubes notched_cube 1 = Some vs \<and> length vs \<noteq> 7
        \<and> (if getBounds notched_cube = None then 256 dvd length vs else length vs \<in> {0, 4, 8}))"
proof -
  have h1: "\<forall>p\<in>set (toPolygons notched_cube). axis_aligned p"
    by (simp add: notched_cube_def notched_polygons_def axis_aligned_def rect_x_def rect_y_def
        rect_z_def)
  have h2: "getBounds notched_cube = Some \<lparr>bmin = Vector 0 0 0, bmax = Vector 2 2 2\<rparr>
      \<or> getBounds notched_cube = None"
    by (simp add: notched_cube_def)
  show ?thesis
    using h1 h2 csgToCubes_axis_aligned_never_seven [OF h1 h2] by (simp add: list_all_iff)
qed


text \<open>
  Claim C1, on the code. Of the three conditions, the scan makes the first two: a polygon
  is skipped when \<open>\<bar>normal \<cdot> direction\<bar> < \<epsilon>\<close>, and a crossing is counted when \<open>t > \<epsilon>\<close>. The
  third is not made: the intersection point is computed and never used, under a comment
  that calls the point-in-polygon test necessary. On the notched cube the sample
  \<open>(3/2, 1/2, 1/2)\<close>, the centre of the cell at \<open>(1, 0, 0)\<close>, which lies in the solid, counts the
  face of the notch in the plane \<open>x = 2\<close>, a rectangle with \<open>1 \<le> y \<le> 2\<close>, though the ray meets
  the plane at \<open>(2, 1/2, 1/2)\<close>, outside the rectangle. The count of the sample is 2 and the
  cell is not emitted.
\<close>

theorem intersection_counted_outside_polygon:
  "count_polygon (Vector (3 / 2) (1 / 2) (1 / 2)) (rect_x 2 1 2 0 1 True) 0 = 1
   \<and> Vector_plus (Vector (3 / 2) (1 / 2) (1 / 2)) (Vector_times ray_direction (1 / 2))
       = Vector 2 (1 / 2) (1 / 2)
   \<and> map vy (vertices (rect_x 2 1 2 0 1 True)) = [1, 2, 2, 1]
   \<and> intersections notched_polygons (Vector (3 / 2) (1 / 2) (1 / 2)) = 2
   \<and> cell notched_polygons 1 1 0 0 = []"
  by (simp add: notched_polygons_def intersections_def count_polygon_def dot_def ray_direction_def
      EPSILON_def Vector_plus_def Vector_times_def cell_def rect_x_def rect_y_def rect_z_def)

section \<open>The transform builder\<close>

text \<open>The product of Three.js on two arrays of 16 elements, and the product of the
  specification on two lists of four rows.\<close>

lemma multiplyMatrices_explicit:
  "multiplyMatrices [a0, a1, a2, a3, a4, a5, a6, a7, a8, a9, a10, a11, a12, a13, a14, a15]
       [b0, b1, b2, b3, b4, b5, b6, b7, b8, b9, b10, b11, b12, b13, b14, b15] =
     [a0 * b0 + a4 * b1 + a8 * b2 + a12 * b3,
      a1 * b0 + a5 * b1 + a9 * b2 + a13 * b3,
      a2 * b0 + a6 * b1 + a10 * b2 + a14 * b3,
      a3 * b0 + a7 * b1 + a11 * b2 + a15 * b3,
      a0 * b4 + a4 * b5 + a8 * b6 + a12 * b7,
      a1 * b4 + a5 * b5 + a9 * b6 + a13 * b7,
      a2 * b4 + a6 * b5 + a10 * b6 + a14 * b7,
      a3 * b4 + a7 * b5 + a11 * b6 + a15 * b7,
      a0 * b8 + a4 * b9 + a8 * b10 + a12 * b11,
      a1 * b8 + a5 * b9 + a9 * b10 + a13 * b11,
      a2 * b8 + a6 * b9 + a10 * b10 + a14 * b11,
      a3 * b8 + a7 * b9 + a11 * b10 + a15 * b11,
      a0 * b12 + a4 * b13 + a8 * b14 + a12 * b15,
      a1 * b12 + a5 * b13 + a9 * b14 + a13 * b15,
      a2 * b12 + a6 * b13 + a10 * b14 + a14 * b15,
      a3 * b12 + a7 * b13 + a11 * b14 + a15 * b15]"
  by (simp add: multiplyMatrices_def)

lemma mat_mul_explicit:
  "mat_mul [[a11, a12, a13, a14], [a21, a22, a23, a24], [a31, a32, a33, a34], [a41, a42, a43, a44]]
       [[b11, b12, b13, b14], [b21, b22, b23, b24], [b31, b32, b33, b34], [b41, b42, b43, b44]] =
     [[a11 * b11 + a12 * b21 + a13 * b31 + a14 * b41, a11 * b12 + a12 * b22 + a13 * b32 + a14 * b42,
       a11 * b13 + a12 * b23 + a13 * b33 + a14 * b43, a11 * b14 + a12 * b24 + a13 * b34 + a14 * b44],
      [a21 * b11 + a22 * b21 + a23 * b31 + a24 * b41, a21 * b12 + a22 * b22 + a23 * b32 + a24 * b42,
       a21 * b13 + a22 * b23 + a23 * b33 + a24 * b43, a21 * b14 + a22 * b24 + a23 * b34 + a24 * b44],
      [a31 * b11 + a32 * b21 + a33 * b31 + a34 * b41, a31 * b12 + a32 * b22 + a33 * b32 + a34 * b42,
       a31 * b13 + a32 * b23 + a33 * b33 + a34 * b43, a31 * b14 + a32 * b24 + a33 * b34 + a34 * b44],
      [a41 * b11 + a42 * b21 + a43 * b31 + a44 * b41, a41 * b12 + a42 * b22 + a43 * b32 + a44 * b42,
       a41 * b13 + a42 * b23 + a43 * b33 + a44 * b43, a41 * b14 + a42 * b24 + a43 * b34 + a44 * b44]]"
  by (simp add: mat_mul_def)

text \<open>
  The matrix the code returns, entry by entry: the rotation \<open>Rz Ry Rx\<close> in the upper left
  block, and the translation \<open>p - R p\<close> in the last column.
\<close>

lemma getTransformationMatrix_closed_form:
  "getTransformationMatrix cube =
    (let px = at0 (origin cube); py = at1 (origin cube); pz = at2 (origin cube);
         cx = cos (at0 (rotation cube) * pi / 180); sx = sin (at0 (rotation cube) * pi / 180);
         cy = cos (at1 (rotation cube) * pi / 180); sy = sin (at1 (rotation cube) * pi / 180);
         cz = cos (at2 (rotation cube) * pi / 180); sz = sin (at2 (rotation cube) * pi / 180);
         r11 = cz * cy; r12 = cz * sy * sx - sz * cx; r13 = cz * sy * cx + sz * sx;
         r21 = sz * cy; r22 = sz * sy * sx + cz * cx; r23 = sz * sy * cx - cz * sx;
         r31 = - sy; r32 = cy * sx; r33 = cy * cx
     in [r11, r21, r31, 0, r12, r22, r32, 0, r13, r23, r33, 0,
         px - (r11 * px + r12 * py + r13 * pz),
         py - (r21 * px + r22 * py + r23 * pz),
         pz - (r31 * px + r32 * py + r33 * pz), 1])"
  by (simp add: getTransformationMatrix_def multiply_def multiplyMatrices_explicit makeTranslation_def
      makeRotationX_def makeRotationY_def makeRotationZ_def Matrix4_set_def degToRad_def Let_def
      algebra_simps)

lemma specified_matrix_closed_form:
  "column_major
       (mat_mul (Translation (origin cube))
         (mat_mul (RotZ (at2 (rotation cube)))
           (mat_mul (RotY (at1 (rotation cube)))
             (mat_mul (RotX (at0 (rotation cube)))
               (Translation (- at0 (origin cube), - at1 (origin cube), - at2 (origin cube))))))) =
    (let px = at0 (origin cube); py = at1 (origin cube); pz = at2 (origin cube);
         cx = cos (at0 (rotation cube) * pi / 180); sx = sin (at0 (rotation cube) * pi / 180);
         cy = cos (at1 (rotation cube) * pi / 180); sy = sin (at1 (rotation cube) * pi / 180);
         cz = cos (at2 (rotation cube) * pi / 180); sz = sin (at2 (rotation cube) * pi / 180);
         r11 = cz * cy; r12 = cz * sy * sx - sz * cx; r13 = cz * sy * cx + sz * sx;
         r21 = sz * cy; r22 = sz * sy * sx + cz * cx; r23 = sz * sy * cx - cz * sx;
         r31 = - sy; r32 = cy * sx; r33 = cy * cx
     in [r11, r21, r31, 0, r12, r22, r32, 0, r13, r23, r33, 0,
         px - (r11 * px + r12 * py + r13 * pz),
         py - (r21 * px + r22 * py + r23 * pz),
         pz - (r31 * px + r32 * py + r33 * pz), 1])"
  by (simp add: Translation_def RotX_def RotY_def RotZ_def mat_mul_explicit column_major_def Let_def
      at0_def at1_def at2_def algebra_simps)

text \<open>
  Claim C5. For every pivot \<open>p\<close> and all rotation angles in degrees, the array
  \<^verbatim>\<open>getTransformationMatrix\<close> returns is the matrix
  \<open>T(p) \<cdot> Rz(rz) \<cdot> Ry(ry) \<cdot> Rx(rx) \<cdot> T(-p)\<close>, in column-major order: the pivot is moved to
  the origin, the rotations about x, then y, then z are applied, and the pivot is moved back.
\<close>

theorem getTransformationMatrix_is_T_Rz_Ry_Rx_T:
  "getTransformationMatrix cube =
     column_major
       (mat_mul (Translation (origin cube))
         (mat_mul (RotZ (at2 (rotation cube)))
           (mat_mul (RotY (at1 (rotation cube)))
             (mat_mul (RotX (at0 (rotation cube)))
               (Translation (- at0 (origin cube), - at1 (origin cube), - at2 (origin cube)))))))"
  by (simp only: getTransformationMatrix_closed_form specified_matrix_closed_form)

lemma getTransformationMatrix_zero:
  "rotation cube = (0, 0, 0) \<Longrightarrow> getTransformationMatrix cube = identity_elements"
  by (simp add: getTransformationMatrix_closed_form identity_elements_def at0_def at1_def at2_def)

lemma applyMatrix4_identity: "applyMatrix4 identity_elements v = v"
  by (simp add: applyMatrix4_def identity_elements_def)

lemma map_applyMatrix4_identity: "map (applyMatrix4 identity_elements) vs = vs"
  by (induction vs) (simp_all add: applyMatrix4_identity)

lemma transform_identity:
  "lib_transform (reference_library g) (lib_translate (reference_library g) s v) identity_elements
     = lib_translate (reference_library g) s v"
  by (simp add: reference_library_def fromPolygons_def Polygon_new_def applyMatrix4_identity
      comp_def)

text \<open>
  Claim C6. When the three rotation angles are zero the matrix is the identity, whatever
  the pivot. Applied to the vertices of a solid it returns the same vertices, and the solid
  \<^verbatim>\<open>cubeToCSG\<close> returns, which skips the rotation for such a box, is the solid the
  transform of the reference library would have returned.
\<close>

theorem zero_rotation_is_identity:
  assumes "rotation cube = (0, 0, 0)"
  shows "getTransformationMatrix cube = identity_elements
     \<and> map (applyMatrix4 (getTransformationMatrix cube)) vs = vs
     \<and> (let L = reference_library g;
             center = ((at0 (cube_from cube) + at0 (cube_to cube)) / 2,
                       (at1 (cube_from cube) + at1 (cube_to cube)) / 2,
                       (at2 (cube_from cube) + at2 (cube_to cube)) / 2);
             radius = ((at0 (cube_to cube) - at0 (cube_from cube)) / 2,
                       (at1 (cube_to cube) - at1 (cube_from cube)) / 2,
                       (at2 (cube_to cube) - at2 (cube_from cube)) / 2);
             translated = lib_translate L (lib_cube L (0, 0, 0) radius) center
         in cubeToCSG L True True (Some cube)
              = Inr (lib_transform L translated (getTransformationMatrix cube)))"
  using assms
  by (simp add: getTransformationMatrix_zero map_applyMatrix4_identity transform_identity
      cubeToCSG_def Let_def at0_def at1_def at2_def)

theorem zero_rotation_is_identity_witness:
  "rotation box_A = (0, 0, 0)
   \<and> getTransformationMatrix box_A = identity_elements
   \<and> map (applyMatrix4 (getTransformationMatrix box_A)) [Vector 0 0 0, Vector 2 2 2]
       = [Vector 0 0 0, Vector 2 2 2]
   \<and> (let L = reference_library True;
           center = ((at0 (cube_from box_A) + at0 (cube_to box_A)) / 2,
                     (at1 (cube_from box_A) + at1 (cube_to box_A)) / 2,
                     (at2 (cube_from box_A) + at2 (cube_to box_A)) / 2);
           radius = ((at0 (cube_to box_A) - at0 (cube_from box_A)) / 2,
                     (at1 (cube_to box_A) - at1 (cube_from box_A)) / 2,
                     (at2 (cube_to box_A) - at2 (cube_from box_A)) / 2);
           translated = lib_translate L (lib_cube L (0, 0, 0) radius) center
       in cubeToCSG L True True (Some box_A)
            = Inr (lib_transform L translated (getTransformationMatrix box_A)))"
proof -
  have h: "rotation box_A = (0, 0, 0)"
    by (simp add: box_A_def)
  show ?thesis
    using h zero_rotation_is_identity [OF h, of "[Vector 0 0 0, Vector 2 2 2]" True] by blast
qed

section \<open>The converter has no check of the extents\<close>

text \<open>
  Claim C3, as the code has it. \<^verbatim>\<open>cubeToCSG\<close> does not look at the sign of the half-extents
  and has no error for a box without extent. For a box with a half-extent that is zero or
  negative, with Three.js and CSG.js loaded, it returns the solid the library builds from
  the half-extents as they are: \<^verbatim>\<open>CSG.cube\<close> with that radius, translated to the centre, and
  transformed when a rotation angle is not zero. The calls into the library are taken to
  return.
\<close>

theorem cubeToCSG_degenerate_box_converted:
  assumes "(at0 (cube_to cube) - at0 (cube_from cube)) / 2 \<le> 0
         \<or> (at1 (cube_to cube) - at1 (cube_from cube)) / 2 \<le> 0
         \<or> (at2 (cube_to cube) - at2 (cube_from cube)) / 2 \<le> 0"
  shows "cubeToCSG L True True (Some cube) =
     Inr (let radius = ((at0 (cube_to cube) - at0 (cube_from cube)) / 2,
                        (at1 (cube_to cube) - at1 (cube_from cube)) / 2,
                        (at2 (cube_to cube) - at2 (cube_from cube)) / 2);
              center = ((at0 (cube_from cube) + at0 (cube_to cube)) / 2,
                        (at1 (cube_from cube) + at1 (cube_to cube)) / 2,
                        (at2 (cube_from cube) + at2 (cube_to cube)) / 2);
              translated = lib_translate L (lib_cube L (0, 0, 0) radius) center
          in if list_ex (\<lambda>r. r \<noteq> 0)
                  [at0 (rotation cube), at1 (rotation cube), at2 (rotation cube)]
             then lib_transform L translated (getTransformationMatrix cube)
             else translated)"
  by (simp add: cubeToCSG_def Let_def at0_def at1_def at2_def)

theorem cubeToCSG_degenerate_box_converted_witness:
  "((at0 (cube_to flat_box) - at0 (cube_from flat_box)) / 2 \<le> 0
      \<or> (at1 (cube_to flat_box) - at1 (cube_from flat_box)) / 2 \<le> 0
      \<or> (at2 (cube_to flat_box) - at2 (cube_from flat_box)) / 2 \<le> 0)
   \<and> cubeToCSG (reference_library True) True True (Some flat_box)
       = Inr (lib_translate (reference_library True)
                (lib_cube (reference_library True) (0, 0, 0) (0, 1 / 2, 1 / 2)) (0, 1 / 2, 1 / 2))"
proof -
  have h: "(at0 (cube_to flat_box) - at0 (cube_from flat_box)) / 2 \<le> 0
      \<or> (at1 (cube_to flat_box) - at1 (cube_from flat_box)) / 2 \<le> 0
      \<or> (at2 (cube_to flat_box) - at2 (cube_from flat_box)) / 2 \<le> 0"
    by (simp add: flat_box_def at0_def)
  have v: "at0 (cube_from flat_box) = 0 \<and> at1 (cube_from flat_box) = 0 \<and> at2 (cube_from flat_box) = 0
      \<and> at0 (cube_to flat_box) = 0 \<and> at1 (cube_to flat_box) = 1 \<and> at2 (cube_to flat_box) = 1
      \<and> at0 (rotation flat_box) = 0 \<and> at1 (rotation flat_box) = 0 \<and> at2 (rotation flat_box) = 0"
    by (simp add: flat_box_def at0_def at1_def at2_def)
  show ?thesis
    using h cubeToCSG_degenerate_box_converted [OF h, of "reference_library True"]
    by (simp add: v Let_def)
qed

text \<open>
  The claim as stated fails: the box from \<open>(0, 0, 0)\<close> to \<open>(0, 1, 1)\<close>, without extent along
  x, is converted to a solid; the conversion does not fail.
\<close>

theorem cubeToCSG_flat_box_counterexample: "\<not> isl (cubeToCSG (reference_library True) True True (Some flat_box))"
  by (simp add: cubeToCSG_def Let_def)

section \<open>The converter and the voxelizer on the heap\<close>

text \<open>
  What the two functions write. Every array they hand to code outside the repository is
  one they have just allocated, so whatever that code does to its arguments, what existed
  before the call is as it was. The values they compute are those of the functions without
  the heap.
\<close>

lemma touches_only_iff:
  "touches_only A h h' \<longleftrightarrow>
     (\<forall>a<next_free h. a \<notin> A \<longrightarrow> arrays h' a = arrays h a \<and> objects h' a = objects h a)
     \<and> next_free h \<le> next_free h'"
  by (auto simp: touches_only_def list_all_iff)

lemma touches_only_refl: "touches_only A h h"
  by (simp add: touches_only_iff)

lemma kept_alloc:
  assumes "touches_only {} h0 h"
  shows "touches_only {} h0 (snd (alloc_array v h))"
    and "next_free h0 \<le> fst (alloc_array v h)"
    and "fst (alloc_array v h) < next_free (snd (alloc_array v h))"
  using assms by (auto simp: touches_only_iff alloc_array_def)

lemma kept_effect:
  assumes "touches_only {} h0 h" and "touches_only A h h'" and "\<forall>a\<in>A. next_free h0 \<le> a"
  shows "touches_only {} h0 h'"
  using assms unfolding touches_only_iff
  by (metis empty_iff le_trans not_less order_less_le_trans)

lemma cell_heap_kept:
  assumes F: "within_arguments F" and k: "touches_only {} h0 (snd st)"
  shows "touches_only {} h0 (snd (cell_heap F ps step x y z st))"
proof (cases "intersections ps (Vector (x + step / 2) (y + step / 2) (z + step / 2)) mod 2 \<noteq> 0")
  case False
  with k show ?thesis
    by (simp add: cell_heap_def)
next
  case True
  define a1 where "a1 = alloc_array (x, y, z) (snd st)"
  define a2 where "a2 = alloc_array (x + step, y + step, z + step) (snd a1)"
  have k1: "touches_only {} h0 (snd a1)" and f1: "next_free h0 \<le> fst a1"
    unfolding a1_def using kept_alloc [OF k] by simp_all
  have k2: "touches_only {} h0 (snd a2)" and f2: "next_free h0 \<le> fst a2"
    unfolding a2_def using kept_alloc [OF k1] by simp_all
  from F have "touches_only {fst a1, fst a2} (snd a2) (snd (eff_new_Cube F (fst a1) (fst a2) (snd a2)))"
    by (simp add: within_arguments_def)
  with k2 have "touches_only {} h0 (snd (eff_new_Cube F (fst a1) (fst a2) (snd a2)))"
    by (rule kept_effect) (use f1 f2 in simp)
  with True show ?thesis
    by (simp add: cell_heap_def a1_def a2_def split_beta Let_def)
qed

lemma cell_heap_values:
  "map snd (fst (cell_heap F ps step x y z st)) = map snd (fst st) @ cell ps step x y z"
  by (simp add: cell_heap_def cell_def split_beta Let_def)


lemma loop_x_heap_None:
  "step \<le> 0 \<Longrightarrow> x < vx (bmax b) \<Longrightarrow> loop_x_heap F ps step b x st = None"
proof (induction arbitrary: F ps step b x st rule: loop_x_heap.fixp_induct)
  case 1
  have "option.admissible (\<lambda>f. \<forall>t. (\<lambda>(((((F, ps), step), b), x), st). step \<le> 0 \<and> x < vx (bmax b)) t \<longrightarrow> f t = None)"
    by (rule admissible_None)
  then show ?case
    by (rule back_subst [of option.admissible]) (auto simp: fun_eq_iff)
next
  case 2
  show ?case by simp
next
  case (3 f)
  from 3(2,3) have "x + step < vx (bmax b)" by simp
  with 3 show ?case by (simp split: bind_split)
qed

lemma loop_z_heap_grid:
  "0 < step \<Longrightarrow> loop_z_heap F ps step b x y z st =
     Some (fold (cell_heap F ps step x y) (grid z (vz (bmax b)) step) st)"
proof (induction z "vz (bmax b)" step arbitrary: st rule: grid.induct)
  case (1 lo step)
  show ?case
  proof (cases "lo < vz (bmax b)")
    case True
    then show ?thesis
      using 1 by (subst loop_z_heap.simps, subst grid.simps) simp
  next
    case False
    then show ?thesis
      by (subst loop_z_heap.simps, subst grid.simps) simp
  qed
qed

lemma loop_y_heap_grid:
  "0 < step \<Longrightarrow> loop_y_heap F ps step b x y st =
     Some (fold (\<lambda>y. fold (cell_heap F ps step x y) (grid (vz (bmin b)) (vz (bmax b)) step))
        (grid y (vy (bmax b)) step) st)"
proof (induction y "vy (bmax b)" step arbitrary: st rule: grid.induct)
  case (1 lo step)
  show ?case
  proof (cases "lo < vy (bmax b)")
    case True
    then show ?thesis
      using 1 by (subst loop_y_heap.simps, subst grid.simps) (simp add: loop_z_heap_grid)
  next
    case False
    then show ?thesis
      by (subst loop_y_heap.simps, subst grid.simps) simp
  qed
qed

lemma loop_x_heap_grid:
  "0 < step \<Longrightarrow> loop_x_heap F ps step b x st =
     Some (fold (\<lambda>x. fold (\<lambda>y. fold (cell_heap F ps step x y) (grid (vz (bmin b)) (vz (bmax b)) step))
        (grid (vy (bmin b)) (vy (bmax b)) step)) (grid x (vx (bmax b)) step) st)"
proof (induction x "vx (bmax b)" step arbitrary: st rule: grid.induct)
  case (1 lo step)
  show ?case
  proof (cases "lo < vx (bmax b)")
    case True
    then show ?thesis
      using 1 by (subst loop_x_heap.simps, subst grid.simps) (simp add: loop_y_heap_grid)
  next
    case False
    then show ?thesis
      by (subst loop_x_heap.simps, subst grid.simps) simp
  qed
qed

lemma fold_kept:
  assumes "\<And>x st. touches_only {} h0 (snd st) \<Longrightarrow> touches_only {} h0 (snd (f x st))"
    and "touches_only {} h0 (snd st)"
  shows "touches_only {} h0 (snd (fold f xs st))"
  using assms(2) by (induction xs arbitrary: st) (simp_all add: assms(1))

lemma fold_values:
  assumes "\<And>x st. map snd (fst (f x st)) = map snd (fst st) @ g x"
  shows "map snd (fst (fold f xs st)) = map snd (fst st) @ concat (map g xs)"
  by (induction xs arbitrary: st) (simp_all add: assms)

lemma scan_heap_values:
  "map snd (fst (fold (\<lambda>x. fold (\<lambda>y. fold (cell_heap F ps step x y) zs) ys) xs st))
     = map snd (fst st) @ concat (map (\<lambda>x. concat (map (\<lambda>y. concat (map (cell ps step x y) zs)) ys)) xs)"
  by (rule fold_values, rule fold_values, rule fold_values, rule cell_heap_values)

lemma scan_heap_kept:
  assumes "within_arguments F" and "touches_only {} h0 (snd st)"
  shows "touches_only {} h0 (snd (fold (\<lambda>x. fold (\<lambda>y. fold (cell_heap F ps step x y) zs) ys) xs st))"
  by (rule fold_kept, rule fold_kept, rule fold_kept, rule cell_heap_kept) (use assms in simp_all)

lemma csgToCubes_heap_values:
  "map_option (\<lambda>st. map snd (fst st)) (csgToCubes_heap F s step h) = csgToCubes s step"
proof (cases "0 < step")
  case True
  then show ?thesis
    by (simp add: csgToCubes_heap_def csgToCubes_scan loop_x_heap_grid scan_heap_values scan_def
        scan_bounds_def Let_def)
next
  case False
  then have le: "step \<le> 0"
    by simp
  show ?thesis
  proof (cases "vx (bmin (scan_bounds s)) < vx (bmax (scan_bounds s))")
    case True
    with le show ?thesis
      by (simp add: csgToCubes_heap_def csgToCubes_nonpositive loop_x_heap_None scan_bounds_def Let_def)
  next
    case False
    with le show ?thesis
      by (simp add: csgToCubes_heap_def csgToCubes_nonpositive scan_bounds_def Let_def)
        (subst loop_x_heap.simps, simp)
  qed
qed

lemma csgToCubes_heap_kept:
  assumes F: "within_arguments F" and r: "csgToCubes_heap F s step h = Some st"
  shows "touches_only {} h (snd st)"
proof (cases "0 < step")
  case True
  have "touches_only {} h (snd ([], h))"
    by (simp add: touches_only_refl)
  from scan_heap_kept [OF F this] True r show ?thesis
    by (auto simp: csgToCubes_heap_def loop_x_heap_grid Let_def)
next
  case False
  then have le: "step \<le> 0"
    by simp
  show ?thesis
  proof (cases "vx (bmin (scan_bounds s)) < vx (bmax (scan_bounds s))")
    case True
    with le r show ?thesis
      by (simp add: csgToCubes_heap_def loop_x_heap_None scan_bounds_def Let_def)
  next
    case False
    with le r show ?thesis
      by (simp add: csgToCubes_heap_def scan_bounds_def Let_def)
        (subst (asm) loop_x_heap.simps, auto simp: touches_only_refl)
  qed
qed


lemma cubeToCSG_heap_steps:
  assumes F: "within_arguments F"
  shows "touches_only {} h (snd (alloc_array sv (snd (alloc_array cv h))))"
    and "touches_only {} h (eff_cube F (fst (alloc_array zv (snd (alloc_array sv (snd (alloc_array cv h)))))) (fst (alloc_array rv (snd (alloc_array zv (snd (alloc_array sv (snd (alloc_array cv h)))))))) (snd (alloc_array rv (snd (alloc_array zv (snd (alloc_array sv (snd (alloc_array cv h)))))))))"
    and "touches_only {} h (eff_translate F (fst (alloc_array tv (eff_cube F (fst (alloc_array zv (snd (alloc_array sv (snd (alloc_array cv h)))))) (fst (alloc_array rv (snd (alloc_array zv (snd (alloc_array sv (snd (alloc_array cv h)))))))) (snd (alloc_array rv (snd (alloc_array zv (snd (alloc_array sv (snd (alloc_array cv h))))))))))) (snd (alloc_array tv (eff_cube F (fst (alloc_array zv (snd (alloc_array sv (snd (alloc_array cv h)))))) (fst (alloc_array rv (snd (alloc_array zv (snd (alloc_array sv (snd (alloc_array cv h)))))))) (snd (alloc_array rv (snd (alloc_array zv (snd (alloc_array sv (snd (alloc_array cv h))))))))))))"
    and "arrays (eff_cube F (fst (alloc_array zv (snd (alloc_array sv (snd (alloc_array cv h)))))) (fst (alloc_array rv (snd (alloc_array zv (snd (alloc_array sv (snd (alloc_array cv h)))))))) (snd (alloc_array rv (snd (alloc_array zv (snd (alloc_array sv (snd (alloc_array cv h))))))))) (fst (alloc_array cv h)) = Some cv"
    and "a < next_free h \<Longrightarrow> arrays (eff_translate F (fst (alloc_array tv (eff_cube F (fst (alloc_array zv (snd (alloc_array sv (snd (alloc_array cv h)))))) (fst (alloc_array rv (snd (alloc_array zv (snd (alloc_array sv (snd (alloc_array cv h)))))))) (snd (alloc_array rv (snd (alloc_array zv (snd (alloc_array sv (snd (alloc_array cv h))))))))))) (snd (alloc_array tv (eff_cube F (fst (alloc_array zv (snd (alloc_array sv (snd (alloc_array cv h)))))) (fst (alloc_array rv (snd (alloc_array zv (snd (alloc_array sv (snd (alloc_array cv h)))))))) (snd (alloc_array rv (snd (alloc_array zv (snd (alloc_array sv (snd (alloc_array cv h)))))))))))) a = arrays h a \<and> objects (eff_translate F (fst (alloc_array tv (eff_cube F (fst (alloc_array zv (snd (alloc_array sv (snd (alloc_array cv h)))))) (fst (alloc_array rv (snd (alloc_array zv (snd (alloc_array sv (snd (alloc_array cv h)))))))) (snd (alloc_array rv (snd (alloc_array zv (snd (alloc_array sv (snd (alloc_array cv h))))))))))) (snd (alloc_array tv (eff_cube F (fst (alloc_array zv (snd (alloc_array sv (snd (alloc_array cv h)))))) (fst (alloc_array rv (snd (alloc_array zv (snd (alloc_array sv (snd (alloc_array cv h)))))))) (snd (alloc_array rv (snd (alloc_array zv (snd (alloc_array sv (snd (alloc_array cv h)))))))))))) a = objects h a"
proof -
  have k0: "touches_only {} h h"
    by (rule touches_only_refl)
  define a1 where "a1 = alloc_array cv h"
  define a2 where "a2 = alloc_array sv (snd a1)"
  define a3 where "a3 = alloc_array zv (snd a2)"
  define a4 where "a4 = alloc_array rv (snd a3)"
  define h5 where "h5 = eff_cube F (fst a3) (fst a4) (snd a4)"
  define a6 where "a6 = alloc_array tv h5"
  define h7 where "h7 = eff_translate F (fst a6) (snd a6)"
  have k1: "touches_only {} h (snd a1)"
    unfolding a1_def by (rule kept_alloc [OF k0])
  have k2: "touches_only {} h (snd a2)"
    unfolding a2_def by (rule kept_alloc [OF k1])
  have k3: "touches_only {} h (snd a3)" and f3: "next_free h \<le> fst a3"
    unfolding a3_def by (rule kept_alloc [OF k2])+
  have k4: "touches_only {} h (snd a4)" and f4: "next_free h \<le> fst a4"
    unfolding a4_def by (rule kept_alloc [OF k3])+
  from F have t5: "touches_only {fst a3, fst a4} (snd a4) h5"
    by (simp add: within_arguments_def h5_def)
  with k4 have k5: "touches_only {} h h5"
    by (rule kept_effect) (use f3 f4 in simp)
  have k6: "touches_only {} h (snd a6)" and f6: "next_free h \<le> fst a6"
    unfolding a6_def by (rule kept_alloc [OF k5])+
  from F have "touches_only {fst a6} (snd a6) h7"
    by (simp add: within_arguments_def h7_def)
  with k6 have k7: "touches_only {} h h7"
    by (rule kept_effect) (use f6 in simp)
  have c: "arrays h5 (fst a1) = Some cv"
  proof -
    have "fst a1 < next_free (snd a4)" "fst a1 \<noteq> fst a3" "fst a1 \<noteq> fst a4"
      "arrays (snd a4) (fst a1) = Some cv"
      by (simp_all add: a1_def a2_def a3_def a4_def alloc_array_def)
    with t5 show ?thesis
      by (simp add: touches_only_iff)
  qed
  show "touches_only {} h (snd (alloc_array sv (snd (alloc_array cv h))))"
    using k2 by (simp add: a1_def a2_def)
  show "touches_only {} h (eff_cube F (fst (alloc_array zv (snd (alloc_array sv (snd (alloc_array cv h)))))) (fst (alloc_array rv (snd (alloc_array zv (snd (alloc_array sv (snd (alloc_array cv h)))))))) (snd (alloc_array rv (snd (alloc_array zv (snd (alloc_array sv (snd (alloc_array cv h)))))))))"
    using k5 by (simp add: a1_def a2_def a3_def a4_def h5_def)
  show "touches_only {} h (eff_translate F (fst (alloc_array tv (eff_cube F (fst (alloc_array zv (snd (alloc_array sv (snd (alloc_array cv h)))))) (fst (alloc_array rv (snd (alloc_array zv (snd (alloc_array sv (snd (alloc_array cv h)))))))) (snd (alloc_array rv (snd (alloc_array zv (snd (alloc_array sv (snd (alloc_array cv h))))))))))) (snd (alloc_array tv (eff_cube F (fst (alloc_array zv (snd (alloc_array sv (snd (alloc_array cv h)))))) (fst (alloc_array rv (snd (alloc_array zv (snd (alloc_array sv (snd (alloc_array cv h)))))))) (snd (alloc_array rv (snd (alloc_array zv (snd (alloc_array sv (snd (alloc_array cv h))))))))))))"
    using k7 by (simp add: a1_def a2_def a3_def a4_def h5_def a6_def h7_def)
  show "arrays (eff_cube F (fst (alloc_array zv (snd (alloc_array sv (snd (alloc_array cv h)))))) (fst (alloc_array rv (snd (alloc_array zv (snd (alloc_array sv (snd (alloc_array cv h)))))))) (snd (alloc_array rv (snd (alloc_array zv (snd (alloc_array sv (snd (alloc_array cv h))))))))) (fst (alloc_array cv h)) = Some cv"
    using c by (simp add: a1_def a2_def a3_def a4_def h5_def)
  show "arrays (eff_translate F (fst (alloc_array tv (eff_cube F (fst (alloc_array zv (snd (alloc_array sv (snd (alloc_array cv h)))))) (fst (alloc_array rv (snd (alloc_array zv (snd (alloc_array sv (snd (alloc_array cv h)))))))) (snd (alloc_array rv (snd (alloc_array zv (snd (alloc_array sv (snd (alloc_array cv h))))))))))) (snd (alloc_array tv (eff_cube F (fst (alloc_array zv (snd (alloc_array sv (snd (alloc_array cv h)))))) (fst (alloc_array rv (snd (alloc_array zv (snd (alloc_array sv (snd (alloc_array cv h)))))))) (snd (alloc_array rv (snd (alloc_array zv (snd (alloc_array sv (snd (alloc_array cv h)))))))))))) a = arrays h a \<and> objects (eff_translate F (fst (alloc_array tv (eff_cube F (fst (alloc_array zv (snd (alloc_array sv (snd (alloc_array cv h)))))) (fst (alloc_array rv (snd (alloc_array zv (snd (alloc_array sv (snd (alloc_array cv h)))))))) (snd (alloc_array rv (snd (alloc_array zv (snd (alloc_array sv (snd (alloc_array cv h))))))))))) (snd (alloc_array tv (eff_cube F (fst (alloc_array zv (snd (alloc_array sv (snd (alloc_array cv h)))))) (fst (alloc_array rv (snd (alloc_array zv (snd (alloc_array sv (snd (alloc_array cv h)))))))) (snd (alloc_array rv (snd (alloc_array zv (snd (alloc_array sv (snd (alloc_array cv h)))))))))))) a = objects h a" if "a < next_free h"
    using k7 that by (simp add: touches_only_iff a1_def a2_def a3_def a4_def h5_def a6_def h7_def)
qed

lemma cubeToCSG_heap_kept:
  assumes F: "within_arguments F"
  shows "touches_only {} h (snd (cubeToCSG_heap L F three_defined csg_defined cube_arg h))"
  unfolding cubeToCSG_heap_def
  by (simp add: touches_only_refl cubeToCSG_heap_steps [OF F] split_beta Let_def
      split: option.split)


lemma cubeToCSG_heap_value:
  assumes F: "within_arguments F"
    and obj: "objects h cube = Some obj" and "cube < next_free h"
    and refs: "from_ref obj < next_free h" "to_ref obj < next_free h"
      "origin_ref obj < next_free h" "rotation_ref obj < next_free h"
    and c: "cube_value h cube = Some c"
  shows "fst (cubeToCSG_heap L F three_defined csg_defined (Some cube) h)
    = cubeToCSG L three_defined csg_defined (Some c)"
proof -
  from c obj have reads: "arrays h (from_ref obj) = Some (cube_from c)"
    "arrays h (to_ref obj) = Some (cube_to c)"
    "arrays h (origin_ref obj) = Some (origin c)"
    "arrays h (rotation_ref obj) = Some (rotation c)"
    by (auto simp: cube_value_def field_def split: option.splits)
  have eta: "\<lparr>cube_from = cube_from c, cube_to = cube_to c, origin = origin c,
      rotation = rotation c\<rparr> = c"
    by simp
  show ?thesis
    unfolding cubeToCSG_heap_def cubeToCSG_def
    using obj reads refs \<open>cube < next_free h\<close>
    by (simp add: cubeToCSG_heap_steps [OF F] field_def split_beta Let_def eta)
qed

lemma kept_box:
  assumes "touches_only {} h h'" and "in_heap h cube"
  shows "objects h' cube = objects h cube \<and> cube_value h' cube = cube_value h cube
     \<and> in_heap h' cube"
  using assms
  by (auto simp: touches_only_iff in_heap_def cube_value_def field_def split: option.splits)

lemma kept_trans:
  assumes "touches_only {} h h1" and "touches_only {} h1 h2"
  shows "touches_only {} h h2"
  using assms unfolding touches_only_iff
  by (metis empty_iff le_trans order_less_le_trans)

lemma within_arguments_example: "within_arguments example_effects"
  by (auto simp: within_arguments_def touches_only_iff example_effects_def)

lemma example_box: "in_heap example_heap 4 \<and> cube_value example_heap 4 = Some box_A"
  by (simp add: in_heap_def example_heap_def cube_value_def field_def box_A_def)

lemma csgToCubes_heap_returns:
  "csgToCubes s step = Some vs \<Longrightarrow> \<exists>cubes h'. csgToCubes_heap F s step h = Some (cubes, h') \<and> map snd cubes = vs"
  using csgToCubes_heap_values [of F s step h] by (cases "csgToCubes_heap F s step h") auto

lemma csgToCubes_sorted:
  "csgToCubes s step = Some vs \<Longrightarrow> sorted_wrt (\<lambda>a b. lex_less (vfrom a) (vfrom b)) vs"
proof (cases "0 < step")
  case True
  assume "csgToCubes s step = Some vs"
  with True show ?thesis
    by (auto simp: csgToCubes_scan scan_sorted)
next
  case False
  assume "csgToCubes s step = Some vs"
  with False show ?thesis
    by (auto simp: csgToCubes_nonpositive split: if_splits)
qed

lemma csgToCubes_heap_notched_cube:
  "map_option (\<lambda>st. (map fst (fst st), next_free (snd st)))
     (csgToCubes_heap example_effects notched_cube 1 h)
   = Some ([next_free h + 2, next_free h + 7, next_free h + 12, next_free h + 17], next_free h + 20)"
  by (simp add: csgToCubes_heap_def loop_x_heap_grid notched_cube_def notched_polygons_def grid.simps
      cell_heap_def intersections_def count_polygon_def dot_def ray_direction_def EPSILON_def
      rect_x_def rect_y_def rect_z_def example_effects_def alloc_array_def
      split_beta Let_def)

text \<open>
  Claim C8. Two invocations of \<^verbatim>\<open>csgToCubes\<close> on the same solid (the same polygons and the
  same bounds) with the same step, from any two heaps and with any two behaviours of the
  constructor \<^verbatim>\<open>new Cube\<close>, agree: either neither returns, or both return and the sequences
  of voxels (name, \<^verbatim>\<open>from\<close>, \<^verbatim>\<open>to\<close>) are the same, in the same order. In particular a second
  invocation on the heap the first one left returns the same sequence, in new objects.
  The sequence returned is in strictly increasing lexicographic order of the corner
  \<open>(x, y, z)\<close>, x first. With a positive step, when the step and the bounds are numbers that
  doubles add without rounding, the call returns and the voxels are exactly those of the
  grid positions whose sample has an odd count, so the sequence is the list of these in
  lexicographic order.
\<close>

theorem csgToCubes_two_invocations_agree:
  "map_option (\<lambda>st. map snd (fst st)) (csgToCubes_heap F1 s step h1)
     = map_option (\<lambda>st. map snd (fst st)) (csgToCubes_heap F2 s step h2)
   \<and> (csgToCubes_heap F1 s step h1 = Some (cubes, h')
        \<longrightarrow> (\<exists>cubes' h''. csgToCubes_heap F2 s step h' = Some (cubes', h'')
                \<and> map snd cubes' = map snd cubes)
          \<and> sorted_wrt (\<lambda>a b. lex_less (vfrom a) (vfrom b)) (map snd cubes))
   \<and> (0 < step \<and> exact_scan (scan_bounds s) step
        \<longrightarrow> (\<exists>cubes h'. csgToCubes_heap F1 s step h1 = Some (cubes, h')
                \<and> (\<forall>v. v \<in> set (map snd cubes)
                       \<longleftrightarrow> on_grid (toPolygons s) step (scan_bounds s) v)))"
proof (intro conjI impI)
  show "map_option (\<lambda>st. map snd (fst st)) (csgToCubes_heap F1 s step h1)
     = map_option (\<lambda>st. map snd (fst st)) (csgToCubes_heap F2 s step h2)"
    by (simp add: csgToCubes_heap_values)
next
  assume run: "csgToCubes_heap F1 s step h1 = Some (cubes, h')"
  then have pure: "csgToCubes s step = Some (map snd cubes)"
    using csgToCubes_heap_values [of F1 s step h1] by simp
  then show "\<exists>cubes' h''. csgToCubes_heap F2 s step h' = Some (cubes', h'')
      \<and> map snd cubes' = map snd cubes"
    by (rule csgToCubes_heap_returns)
  from pure show "sorted_wrt (\<lambda>a b. lex_less (vfrom a) (vfrom b)) (map snd cubes)"
    by (rule csgToCubes_sorted)
next
  assume "0 < step \<and> exact_scan (scan_bounds s) step"
  then have pos: "0 < step"
    by simp
  then have "csgToCubes s step = Some (scan (toPolygons s) step (scan_bounds s))"
    by (rule csgToCubes_scan)
  from csgToCubes_heap_returns [OF this, of F1 h1] pos
  show "\<exists>cubes h'. csgToCubes_heap F1 s step h1 = Some (cubes, h')
      \<and> (\<forall>v. v \<in> set (map snd cubes) \<longleftrightarrow> on_grid (toPolygons s) step (scan_bounds s) v)"
    using scan_on_grid [OF pos, of _ "toPolygons s" "scan_bounds s"] by metis
qed

theorem csgToCubes_two_invocations_agree_witness:
  "(\<exists>cubes h' cubes' h''.
        csgToCubes_heap example_effects notched_cube 1 example_heap = Some (cubes, h')
      \<and> csgToCubes_heap example_effects notched_cube 1 h' = Some (cubes', h'')
      \<and> map fst cubes = [7, 12, 17, 22]
      \<and> map fst cubes' = [27, 32, 37, 42]
      \<and> map snd cubes' = map snd cubes
      \<and> map snd cubes =
          [\<lparr>name = ''CSG Voxel'', vfrom = (0, 0, 0), vto = (1, 1, 1)\<rparr>,
           \<lparr>name = ''CSG Voxel'', vfrom = (0, 0, 1), vto = (1, 1, 2)\<rparr>,
           \<lparr>name = ''CSG Voxel'', vfrom = (0, 1, 0), vto = (1, 2, 1)\<rparr>,
           \<lparr>name = ''CSG Voxel'', vfrom = (0, 1, 1), vto = (1, 2, 2)\<rparr>]
      \<and> sorted_wrt (\<lambda>a b. lex_less (vfrom a) (vfrom b)) (map snd cubes)
      \<and> (\<forall>v. v \<in> set (map snd cubes)
             \<longleftrightarrow> on_grid (toPolygons notched_cube) 1 (scan_bounds notched_cube) v))
   \<and> (0::real) < 1 \<and> exact_scan (scan_bounds notched_cube) 1"
proof -
  have hyp: "(0::real) < 1 \<and> exact_scan (scan_bounds notched_cube) 1"
    by (simp add: exact_scan_def exact_def scan_bounds_def notched_cube_def)
  obtain cubes h' where run: "csgToCubes_heap example_effects notched_cube 1 example_heap = Some (cubes, h')"
    and vals: "map snd cubes =
          [\<lparr>name = ''CSG Voxel'', vfrom = (0, 0, 0), vto = (1, 1, 1)\<rparr>,
           \<lparr>name = ''CSG Voxel'', vfrom = (0, 0, 1), vto = (1, 1, 2)\<rparr>,
           \<lparr>name = ''CSG Voxel'', vfrom = (0, 1, 0), vto = (1, 2, 1)\<rparr>,
           \<lparr>name = ''CSG Voxel'', vfrom = (0, 1, 1), vto = (1, 2, 2)\<rparr>]"
    using csgToCubes_heap_returns [OF csgToCubes_notched_cube, of example_effects example_heap]
    by auto
  note two = csgToCubes_two_invocations_agree [of example_effects notched_cube 1 example_heap example_effects example_heap cubes h']
  from two run obtain cubes' h'' where
    again: "csgToCubes_heap example_effects notched_cube 1 h' = Some (cubes', h'')"
    and same: "map snd cubes' = map snd cubes"
    by blast
  from two run have ordered: "sorted_wrt (\<lambda>a b. lex_less (vfrom a) (vfrom b)) (map snd cubes)"
    by blast
  from two run hyp have grid: "\<forall>v. v \<in> set (map snd cubes)
      \<longleftrightarrow> on_grid (toPolygons notched_cube) 1 (scan_bounds notched_cube) v"
    by simp
  from run csgToCubes_heap_notched_cube [of example_heap]
  have first: "map fst cubes = [7, 12, 17, 22]" and free: "next_free h' = 25"
    by (simp_all add: example_heap_def)
  from again csgToCubes_heap_notched_cube [of h'] free
  have second: "map fst cubes' = [27, 32, 37, 42]"
    by simp
  have "\<exists>cubes h' cubes' h''.
        csgToCubes_heap example_effects notched_cube 1 example_heap = Some (cubes, h')
      \<and> csgToCubes_heap example_effects notched_cube 1 h' = Some (cubes', h'')
      \<and> map fst cubes = [7, 12, 17, 22]
      \<and> map fst cubes' = [27, 32, 37, 42]
      \<and> map snd cubes' = map snd cubes
      \<and> map snd cubes =
          [\<lparr>name = ''CSG Voxel'', vfrom = (0, 0, 0), vto = (1, 1, 1)\<rparr>,
           \<lparr>name = ''CSG Voxel'', vfrom = (0, 0, 1), vto = (1, 1, 2)\<rparr>,
           \<lparr>name = ''CSG Voxel'', vfrom = (0, 1, 0), vto = (1, 2, 1)\<rparr>,
           \<lparr>name = ''CSG Voxel'', vfrom = (0, 1, 1), vto = (1, 2, 2)\<rparr>]
      \<and> sorted_wrt (\<lambda>a b. lex_less (vfrom a) (vfrom b)) (map snd cubes)
      \<and> (\<forall>v. v \<in> set (map snd cubes)
             \<longleftrightarrow> on_grid (toPolygons notched_cube) 1 (scan_bounds notched_cube) v)"
    using run again first second same vals ordered grid
    by (intro exI [of _ cubes] exI [of _ h'] exI [of _ cubes'] exI [of _ h''] conjI)
  with hyp show ?thesis
    by simp
qed

text \<open>
  Claim C9. Let a box exist in the heap before the pipeline runs. Under the assumption
  that code outside the repository writes only to the arrays it is handed and to what it
  allocates, the box is the same object with the same \<^verbatim>\<open>from\<close>, \<^verbatim>\<open>to\<close>, \<^verbatim>\<open>origin\<close> and
  \<^verbatim>\<open>rotation\<close> after the conversion of the first element, after the conversion of the
  second, after the boolean operation of the library and after the voxelization when it
  returns, whatever the outcome of each conversion: a solid or one of its failures.
\<close>

theorem geometry_stages_leave_boxes_unmodified:
  assumes "within_arguments F" and "in_heap h box"
    and "h1 = snd (cubeToCSG_heap L F three_defined csg_defined target_element h)"
    and "h2 = snd (cubeToCSG_heap L F three_defined csg_defined modifier_element h1)"
    and "h3 = eff_boolean F h2"
  shows "objects h1 box = objects h box \<and> cube_value h1 box = cube_value h box
     \<and> objects h2 box = objects h box \<and> cube_value h2 box = cube_value h box
     \<and> objects h3 box = objects h box \<and> cube_value h3 box = cube_value h box
     \<and> (csgToCubes_heap F result_solid resolution h3 = Some (cubes, h4)
          \<longrightarrow> objects h4 box = objects h box \<and> cube_value h4 box = cube_value h box)"
proof -
  have k1: "touches_only {} h h1"
    unfolding assms(3) by (rule cubeToCSG_heap_kept [OF assms(1)])
  have "touches_only {} h1 h2"
    unfolding assms(4) by (rule cubeToCSG_heap_kept [OF assms(1)])
  with k1 have k2: "touches_only {} h h2"
    by (rule kept_trans)
  from assms(1) have "touches_only {} h2 h3"
    unfolding assms(5) by (simp add: within_arguments_def)
  with k2 have k3: "touches_only {} h h3"
    by (rule kept_trans)
  have k4: "touches_only {} h h4"
    if "csgToCubes_heap F result_solid resolution h3 = Some (cubes, h4)"
    using kept_trans [OF k3 csgToCubes_heap_kept [OF assms(1) that]] by simp
  show ?thesis
    using kept_box [OF k1 assms(2)] kept_box [OF k2 assms(2)] kept_box [OF k3 assms(2)]
      kept_box [OF k4 assms(2)]
    by simp
qed

theorem geometry_stages_leave_boxes_unmodified_witness:
  "within_arguments example_effects \<and> in_heap example_heap 4
   \<and> cube_value example_heap 4 = Some box_A
   \<and> (\<exists>h1 h2 h3 h4 cubes.
        cubeToCSG_heap (reference_library True) example_effects True True (Some 4) example_heap
          = (cubeToCSG (reference_library True) True True (Some box_A), h1)
      \<and> cubeToCSG_heap (reference_library True) example_effects True True None h1
          = (Inl TypeError, h2)
      \<and> h3 = eff_boolean example_effects h2
      \<and> csgToCubes_heap example_effects notched_cube 1 h3 = Some (cubes, h4)
      \<and> length cubes = 4
      \<and> next_free example_heap = 5 \<and> next_free h1 = 10
      \<and> cube_value h1 4 = Some box_A \<and> cube_value h2 4 = Some box_A
      \<and> cube_value h3 4 = Some box_A \<and> cube_value h4 4 = Some box_A)"
proof -
  define h1 where "h1 = snd (cubeToCSG_heap (reference_library True) example_effects True True (Some 4) example_heap)"
  define h2 where "h2 = snd (cubeToCSG_heap (reference_library True) example_effects True True None h1)"
  define h3 where "h3 = eff_boolean example_effects h2"
  note F = within_arguments_example
  have box: "in_heap example_heap 4" and val: "cube_value example_heap 4 = Some box_A"
    using example_box by simp_all
  have "fst (cubeToCSG_heap (reference_library True) example_effects True True (Some 4) example_heap)
       = cubeToCSG (reference_library True) True True (Some box_A)"
  proof -
    have obj: "objects example_heap 4
        = Some \<lparr>from_ref = 0, to_ref = 1, origin_ref = 2, rotation_ref = 3\<rparr>"
      by (simp add: example_heap_def)
    show ?thesis
      by (rule cubeToCSG_heap_value [OF F obj _ _ _ _ _ val]) (simp_all add: example_heap_def)
  qed
  then have conv: "cubeToCSG_heap (reference_library True) example_effects True True (Some 4) example_heap
       = (cubeToCSG (reference_library True) True True (Some box_A), h1)"
    unfolding h1_def by (simp add: prod_eq_iff)
  have fail: "cubeToCSG_heap (reference_library True) example_effects True True None h1
       = (Inl TypeError, h2)"
    unfolding h2_def by (simp add: cubeToCSG_heap_def)
  obtain cubes h4 where run: "csgToCubes_heap example_effects notched_cube 1 h3 = Some (cubes, h4)"
    and len: "map snd cubes = the (csgToCubes notched_cube 1)"
    using csgToCubes_heap_returns [OF csgToCubes_notched_cube, of example_effects h3]
    by (auto simp: csgToCubes_notched_cube)
  from len have "length (map snd cubes) = 4"
    by (simp add: csgToCubes_notched_cube)
  then have len4: "length cubes = 4"
    by simp
  have grow: "next_free example_heap = 5 \<and> next_free h1 = 10"
    unfolding h1_def
    by (simp add: cubeToCSG_heap_def example_heap_def example_effects_def alloc_array_def
        field_def at0_def at1_def at2_def split_beta Let_def)
  note stages = geometry_stages_leave_boxes_unmodified [OF F box h1_def h2_def h3_def, of notched_cube 1 cubes h4]
  have kept: "cube_value h1 4 = Some box_A \<and> cube_value h2 4 = Some box_A
      \<and> cube_value h3 4 = Some box_A \<and> cube_value h4 4 = Some box_A"
    using stages run val by simp
  have "\<exists>h1 h2 h3 h4 cubes.
        cubeToCSG_heap (reference_library True) example_effects True True (Some 4) example_heap
          = (cubeToCSG (reference_library True) True True (Some box_A), h1)
      \<and> cubeToCSG_heap (reference_library True) example_effects True True None h1
          = (Inl TypeError, h2)
      \<and> h3 = eff_boolean example_effects h2
      \<and> csgToCubes_heap example_effects notched_cube 1 h3 = Some (cubes, h4)
      \<and> length cubes = 4
      \<and> next_free example_heap = 5 \<and> next_free h1 = 10
      \<and> cube_value h1 4 = Some box_A \<and> cube_value h2 4 = Some box_A
      \<and> cube_value h3 4 = Some box_A \<and> cube_value h4 4 = Some box_A"
    using conv fail h3_def run len4 grow kept
    by (intro exI [of _ h1] exI [of _ h2] exI [of _ h3] exI [of _ h4] exI [of _ cubes] conjI)
      simp_all
  with F box val show ?thesis
    by simp
qed

end
